theory Spec2Isabelle
  imports Main
begin

section \<open>The AST interchange types (src/webview/types.ts)\<close>

text \<open>
  The program is TypeScript, run as JavaScript on a snapshot that \<^verbatim>\<open>JSON.parse\<close>
  produced. The model follows the declared types: the interfaces become records and the
  union of one-key objects becomes a datatype. Two things that the types do not say
  happen within well-typed snapshots and node identifiers, and are in the model: an
  array read past the end gives \<^verbatim>\<open>undefined\<close>, and (the cast from JSON being unchecked)
  a node can carry a key that the union does not declare. Values of any other shape (a
  payload whose fields have other types, a node with several keys) are outside the
  model.

  A \<^verbatim>\<open>number\<close> that holds a group, an offset, a line or a column is an \<^typ>\<open>int\<close>: the
  snapshot stores whole numbers there. The one arithmetic operation of the program on
  them, the subtraction of one on the host side, is modelled with the rounding of the
  doubles that JavaScript numbers are (see there). Fractions are outside the model.
\<close>

record NodeID =
  base :: int
  offset :: int

record SourcePosition =
  line :: int
  column :: int

record SourceRange =
  start :: SourcePosition
  "end" :: SourcePosition
  fileUrl :: string

record FunctionDecl =
  name :: string
  site :: SourceRange
  parameters :: "NodeID list"

record ModuleDecl =
  baseName :: string
  canAccessBuiltins :: bool
  site :: SourceRange
  sources :: "NodeID list"

record TranslationUnit =
  decls :: "NodeID list"
  site :: SourceRange

record ProductTypeDecl =
  name :: string
  site :: SourceRange
  identifierSite :: SourceRange

text \<open>\<^verbatim>\<open>label?: string\<close>: the field may be absent, which is \<open>None\<close>.\<close>

record ParameterDecl =
  site :: SourceRange
  label :: "string option"
  "identifier" :: string

text \<open>
  An \<^verbatim>\<open>ASTNode\<close> is an object with exactly one key, the kind tag, whose value is the
  payload. The union declares six keys.
\<close>

definition declared_kinds :: "string list" where
  "declared_kinds = [''missing'', ''FunctionDecl'', ''TranslationUnit'', ''ModuleDecl'',
                     ''ProductTypeDecl'', ''ParameterDecl'']"

text \<open>
  The snapshot is produced by \<^verbatim>\<open>JSON.parse(...) as AST\<close>, an unchecked cast, so at run
  time a node can be an object whose one key is none of the six. \<open>other_key\<close> is the type
  of such keys, and \<open>UnknownKind k\<close> is a node with such a key (its payload is never read
  by the program). The six declared variants are the first six constructors.
\<close>

typedef other_key = "{k :: string. k \<notin> set declared_kinds}"
  by (rule exI [of _ "''''"]) (simp add: declared_kinds_def)

datatype ASTNode =
    missing
  | FunctionDecl FunctionDecl
  | TranslationUnit TranslationUnit
  | ModuleDecl ModuleDecl
  | ProductTypeDecl ProductTypeDecl
  | ParameterDecl ParameterDecl
  | UnknownKind other_key

record AST =
  modulesIds :: "NodeID list"
  nodes :: "ASTNode list list"

subsection \<open>Completions of a JavaScript call\<close>

text \<open>
  A call returns a value or throws. \<open>TypeError\<close> is what the runtime throws when a
  property is read from \<^verbatim>\<open>undefined\<close> or \<^verbatim>\<open>null\<close>, when \<^verbatim>\<open>in\<close> is applied to a value
  that is not an object, and when \<^verbatim>\<open>Object.keys\<close> is given \<^verbatim>\<open>undefined\<close>;
  \<open>SyntaxError\<close> is what \<^verbatim>\<open>JSON.parse\<close> throws; \<open>Error m\<close> is the program's own
  \<^verbatim>\<open>throw new Error(m)\<close>. \<open>Exhausted\<close> is the third completion of the model only: a
  recursion that was cut off because it went deeper than the bound it was given.
\<close>

datatype js_error = TypeError | SyntaxError | Error string

datatype 'a result = Returns 'a | Throws js_error | Exhausted

text \<open>Evaluating \<open>f\<close> on what \<open>m\<close> returned; a throw in \<open>m\<close> is passed on.\<close>

fun and_then :: "'a result \<Rightarrow> ('a \<Rightarrow> 'b result) \<Rightarrow> 'b result" where
  "and_then (Returns x) f = f x"
| "and_then (Throws e) f = Throws e"
| "and_then Exhausted f = Exhausted"

text \<open>
  \<^verbatim>\<open>xs.map(f)\<close> with a callback that can throw: the elements are visited in order and
  the first throw ends the call.
\<close>

fun map_result :: "('a \<Rightarrow> 'b result) \<Rightarrow> 'a list \<Rightarrow> 'b list result" where
  "map_result f [] = Returns []"
| "map_result f (x # xs) =
     and_then (f x) (\<lambda>y. and_then (map_result f xs) (\<lambda>ys. Returns (y # ys)))"

text \<open>
  \<^verbatim>\<open>xs[i]\<close> on an array: the element when \<open>0 \<le> i < length xs\<close>, and \<^verbatim>\<open>undefined\<close>
  (\<open>None\<close>) for every other index, negative ones included. Nothing is thrown.
\<close>

definition element :: "'a list \<Rightarrow> int \<Rightarrow> 'a option" where
  "element xs i = (if 0 \<le> i \<and> i < int (length xs) then Some (xs ! nat i) else None)"

subsection \<open>The node store\<close>

text \<open>
  \<^verbatim>\<open>
  export function node(from: AST, id: NodeID): ASTNode {
    return from.nodes[id.base][id.offset];
  }
  \<close>
  There is no bounds check. \<^verbatim>\<open>from.nodes[id.base]\<close> is \<^verbatim>\<open>undefined\<close> for a group out of
  range, and reading \<^verbatim>\<open>[id.offset]\<close> from \<^verbatim>\<open>undefined\<close> throws a \<open>TypeError\<close>. For a
  group in range the second read is an array read again: it gives \<^verbatim>\<open>undefined\<close> for an
  offset out of range, and the function returns it. So the value returned is an
  \<^typ>\<open>ASTNode option\<close>, with \<open>None\<close> for \<^verbatim>\<open>undefined\<close>.
\<close>

definition node :: "AST \<Rightarrow> NodeID \<Rightarrow> ASTNode option result" where
  "node from nid =
     (case element (nodes from) (base nid) of
        None \<Rightarrow> Throws TypeError
      | Some row \<Rightarrow> Returns (element row (offset nid)))"

subsection \<open>Kind-safe accessors and predicates\<close>

text \<open>
  \<^verbatim>\<open>
  function asX(node, key) {
    if (key in node) { return (node as any)[key]; }
    throw new Error(`Expected ${String(key)}`);
  }
  function isX(node, key): boolean { return key in node; }
  export function nodeKind(node) { return Object.keys(node)[0]; }
  \<close>
  The argument is what \<open>node\<close> returned, so it can be \<^verbatim>\<open>undefined\<close>: then \<^verbatim>\<open>key in node\<close>
  and \<^verbatim>\<open>Object.keys(node)\<close> throw a \<open>TypeError\<close>. \<open>keys\<close> is \<^verbatim>\<open>Object.keys\<close> on a node.
\<close>

fun keys :: "ASTNode \<Rightarrow> string list" where
  "keys missing = [''missing'']"
| "keys (FunctionDecl _) = [''FunctionDecl'']"
| "keys (TranslationUnit _) = [''TranslationUnit'']"
| "keys (ModuleDecl _) = [''ModuleDecl'']"
| "keys (ProductTypeDecl _) = [''ProductTypeDecl'']"
| "keys (ParameterDecl _) = [''ParameterDecl'']"
| "keys (UnknownKind k) = [Rep_other_key k]"

fun isX :: "ASTNode option \<Rightarrow> string \<Rightarrow> bool result" where
  "isX None key = Throws TypeError"
| "isX (Some n) key = Returns (key \<in> set (keys n))"

fun asFunctionDecl :: "ASTNode option \<Rightarrow> FunctionDecl result" where
  "asFunctionDecl None = Throws TypeError"
| "asFunctionDecl (Some (FunctionDecl d)) = Returns d"
| "asFunctionDecl (Some _) = Throws (Error ''Expected FunctionDecl'')"

fun asModuleDecl :: "ASTNode option \<Rightarrow> ModuleDecl result" where
  "asModuleDecl None = Throws TypeError"
| "asModuleDecl (Some (ModuleDecl d)) = Returns d"
| "asModuleDecl (Some _) = Throws (Error ''Expected ModuleDecl'')"

fun asTranslationUnit :: "ASTNode option \<Rightarrow> TranslationUnit result" where
  "asTranslationUnit None = Throws TypeError"
| "asTranslationUnit (Some (TranslationUnit d)) = Returns d"
| "asTranslationUnit (Some _) = Throws (Error ''Expected TranslationUnit'')"

fun asProductTypeDecl :: "ASTNode option \<Rightarrow> ProductTypeDecl result" where
  "asProductTypeDecl None = Throws TypeError"
| "asProductTypeDecl (Some (ProductTypeDecl d)) = Returns d"
| "asProductTypeDecl (Some _) = Throws (Error ''Expected ProductTypeDecl'')"

fun asParameterDecl :: "ASTNode option \<Rightarrow> ParameterDecl result" where
  "asParameterDecl None = Throws TypeError"
| "asParameterDecl (Some (ParameterDecl d)) = Returns d"
| "asParameterDecl (Some _) = Throws (Error ''Expected ParameterDecl'')"

definition isFunctionDecl :: "ASTNode option \<Rightarrow> bool result" where
  "isFunctionDecl n = isX n ''FunctionDecl''"

definition isModuleDecl :: "ASTNode option \<Rightarrow> bool result" where
  "isModuleDecl n = isX n ''ModuleDecl''"

definition isTranslationUnit :: "ASTNode option \<Rightarrow> bool result" where
  "isTranslationUnit n = isX n ''TranslationUnit''"

definition isProductTypeDecl :: "ASTNode option \<Rightarrow> bool result" where
  "isProductTypeDecl n = isX n ''ProductTypeDecl''"

fun nodeKind :: "ASTNode option \<Rightarrow> string result" where
  "nodeKind None = Throws TypeError"
| "nodeKind (Some n) = Returns (hd (keys n))"

subsection \<open>The source-site resolver\<close>

text \<open>
  \<^verbatim>\<open>
  export function siteOf(node: ASTNode): SourceRange | null {
    switch (nodeKind(node)) {
      case 'FunctionDecl':    return asFunctionDecl(node).site;
      case 'ModuleDecl':      return null;
      case 'TranslationUnit': return asTranslationUnit(node).site;
      case 'ProductTypeDecl': return asProductTypeDecl(node).site;
      case 'ParameterDecl':   return asParameterDecl(node).site;
      case 'missing':         return null;
    }
  }
  \<close>
  The switch has no default: for a key that is none of the six the function runs off
  its end and returns \<^verbatim>\<open>undefined\<close>. The three values a caller can see are kept apart.
\<close>

datatype 'a nullable = Present 'a | Null | Undefined

definition siteOf :: "ASTNode option \<Rightarrow> SourceRange nullable result" where
  "siteOf n =
     and_then (nodeKind n) (\<lambda>kind.
       if kind = ''FunctionDecl'' then
         and_then (asFunctionDecl n) (\<lambda>d. Returns (Present (FunctionDecl.site d)))
       else if kind = ''ModuleDecl'' then Returns Null
       else if kind = ''TranslationUnit'' then
         and_then (asTranslationUnit n) (\<lambda>d. Returns (Present (TranslationUnit.site d)))
       else if kind = ''ProductTypeDecl'' then
         and_then (asProductTypeDecl n) (\<lambda>d. Returns (Present (ProductTypeDecl.site d)))
       else if kind = ''ParameterDecl'' then
         and_then (asParameterDecl n) (\<lambda>d. Returns (Present (ParameterDecl.site d)))
       else if kind = ''missing'' then Returns Null
       else Returns Undefined)"

section \<open>The tree projection (the webview script)\<close>

subsection \<open>Display nodes\<close>

text \<open>
  \<^verbatim>\<open>TreeItem\<close>, \<^verbatim>\<open>TreeItemIconConfig\<close>, the decorations and the actions are the tree
  widget's types, with the fields the program writes. A field the program leaves out of
  an object literal is \<open>None\<close>. An entry of \<open>subItems\<close> is a \<^typ>\<open>'a option\<close> because
  \<open>renderAnyDecl\<close> can return \<^verbatim>\<open>undefined\<close> (see there).
\<close>

record TreeItemIconConfig =
  branch :: string
  leaf :: string
  "open" :: string

record TreeItemDecoration =
  content :: string
  color :: string
  appearance :: string

record TreeItemAction =
  actionId :: string
  icon :: string
  tooltip :: string

datatype TreeItem =
  TreeItem (icons: TreeItemIconConfig) (label: string) (tooltip: "string option")
    (item_value: string) (subItems: "TreeItem option list")
    (decorations: "TreeItemDecoration list option") (actions: "TreeItemAction list option")

text \<open>
  \<^verbatim>\<open>
  function uniformIcon(iconName: string): TreeItemIconConfig {
    return { branch: iconName, leaf: iconName, open: iconName };
  }
  \<close>
\<close>

definition uniformIcon :: "string \<Rightarrow> TreeItemIconConfig" where
  "uniformIcon iconName = \<lparr>branch = iconName, leaf = iconName, open = iconName\<rparr>"

text \<open>
  \<^verbatim>\<open>s.split(sep)\<close> for a separator of one character: the pieces between the
  occurrences of the separator, never an empty array. \<^verbatim>\<open>.pop()\<close> on the result is its
  last piece.
\<close>

fun split :: "string \<Rightarrow> char \<Rightarrow> string list" where
  "split [] sep = [[]]"
| "split (c # cs) sep =
     (if c = sep then [] # split cs sep
      else (c # hd (split cs sep)) # tl (split cs sep))"

text \<open>
  \<^verbatim>\<open>JSON.stringify\<close> belongs to the runtime. The rendering functions take it as the
  parameter \<open>JSON_stringify\<close>, applied to a \<open>NodeID\<close>; the text it produces is stored in
  the item and is not inspected by any of them.
\<close>

subsection \<open>Rendering of the kinds that have no children to dispatch\<close>

text \<open>
  \<^verbatim>\<open>
  function renderParameterDecl(ast: AST, parameterDeclId: NodeID): TreeItem {
    const n = asParameterDecl(node(ast, parameterDeclId));
    return {
      icons: uniformIcon('symbol-parameter'),
      label: n.identifier + (' (label: ' + (n.label ?? '<none>') + ')'),
      value: JSON.stringify(parameterDeclId),
      subItems: [],
      decorations: [{ content: 'ParameterDecl',
                      color: 'var(--vscode-textLink-foreground)', appearance: 'text' }],
      actions: [{ actionId: 'highlightFullDeclaration', icon: 'open-preview',
                  tooltip: 'Highligh Declaration' }]
    };
  }
  \<close>
\<close>

definition renderParameterDecl :: "(NodeID \<Rightarrow> string) \<Rightarrow> AST \<Rightarrow> NodeID \<Rightarrow> TreeItem result" where
  "renderParameterDecl JSON_stringify ast parameterDeclId =
     and_then (and_then (node ast parameterDeclId) asParameterDecl) (\<lambda>n.
       Returns (TreeItem
         (uniformIcon ''symbol-parameter'')
         (identifier n @ ('' (label: '' @
            (case ParameterDecl.label n of Some l \<Rightarrow> l | None \<Rightarrow> ''<none>'') @ '')''))
         None
         (JSON_stringify parameterDeclId)
         []
         (Some [\<lparr>content = ''ParameterDecl'', color = ''var(--vscode-textLink-foreground)'',
                 appearance = ''text''\<rparr>])
         (Some [\<lparr>actionId = ''highlightFullDeclaration'', icon = ''open-preview'',
                 TreeItemAction.tooltip = ''Highligh Declaration''\<rparr>])))"

text \<open>
  \<^verbatim>\<open>
  function renderFunctionDecl(ast: AST, functionDeclId: NodeID): TreeItem {
    const n = asFunctionDecl(node(ast, functionDeclId));
    return {
      icons: uniformIcon('symbol-function'),
      label: n.name,
      value: JSON.stringify(functionDeclId),
      subItems: [{
          icons: uniformIcon('symbol-property'), label: 'parameters', value: 'n',
          subItems: n.parameters.map((parameterId) => renderParameterDecl(ast, parameterId))
      }],
      decorations: [{ content: 'FunctionDecl', ... }],
      actions: [{ actionId: 'highlightFullDeclaration', ... }]
    };
  }
  \<close>
\<close>

definition renderFunctionDecl :: "(NodeID \<Rightarrow> string) \<Rightarrow> AST \<Rightarrow> NodeID \<Rightarrow> TreeItem result" where
  "renderFunctionDecl JSON_stringify ast functionDeclId =
     and_then (and_then (node ast functionDeclId) asFunctionDecl) (\<lambda>n.
       and_then (map_result (renderParameterDecl JSON_stringify ast) (parameters n)) (\<lambda>ps.
         Returns (TreeItem
           (uniformIcon ''symbol-function'')
           (FunctionDecl.name n)
           None
           (JSON_stringify functionDeclId)
           [Some (TreeItem (uniformIcon ''symbol-property'') ''parameters'' None ''n''
                    (map Some ps) None None)]
           (Some [\<lparr>content = ''FunctionDecl'', color = ''var(--vscode-textLink-foreground)'',
                   appearance = ''text''\<rparr>])
           (Some [\<lparr>actionId = ''highlightFullDeclaration'', icon = ''open-preview'',
                   TreeItemAction.tooltip = ''Highligh Declaration''\<rparr>]))))"

text \<open>
  \<^verbatim>\<open>
  function renderMissing(ast: AST, nodeId: NodeID): TreeItem {
    return {
      icons: uniformIcon('question'),
      label: 'Unknown',
      value: JSON.stringify(nodeId),
      subItems: [],
      decorations: [{ content: nodeKind(node(ast, nodeId)),
                      color: 'var(--vscode-errorForeground)', appearance: 'text' }]
    };
  }
  \<close>
\<close>

definition renderMissing :: "(NodeID \<Rightarrow> string) \<Rightarrow> AST \<Rightarrow> NodeID \<Rightarrow> TreeItem result" where
  "renderMissing JSON_stringify ast nodeId =
     and_then (and_then (node ast nodeId) nodeKind) (\<lambda>kind.
       Returns (TreeItem
         (uniformIcon ''question'')
         ''Unknown''
         None
         (JSON_stringify nodeId)
         []
         (Some [\<lparr>content = kind, color = ''var(--vscode-errorForeground)'',
                 appearance = ''text''\<rparr>])
         None))"

text \<open>
  \<^verbatim>\<open>
  function renderProductTypeDecl(ast: AST, productTypeDeclId: NodeID): TreeItem {
    const n = asProductTypeDecl(node(ast, productTypeDeclId));
    return {
      icons: uniformIcon('symbol-class'),
      label: n.name,
      value: JSON.stringify(productTypeDeclId),
      subItems: [],
      decorations: [{ content: 'ProductTypeDecl', ... }],
      actions: [{ actionId: 'highlightFullDeclaration', ... }]
    };
  }
  \<close>
\<close>

definition renderProductTypeDecl :: "(NodeID \<Rightarrow> string) \<Rightarrow> AST \<Rightarrow> NodeID \<Rightarrow> TreeItem result" where
  "renderProductTypeDecl JSON_stringify ast productTypeDeclId =
     and_then (and_then (node ast productTypeDeclId) asProductTypeDecl) (\<lambda>n.
       Returns (TreeItem
         (uniformIcon ''symbol-class'')
         (ProductTypeDecl.name n)
         None
         (JSON_stringify productTypeDeclId)
         []
         (Some [\<lparr>content = ''ProductTypeDecl'', color = ''var(--vscode-textLink-foreground)'',
                 appearance = ''text''\<rparr>])
         (Some [\<lparr>actionId = ''highlightFullDeclaration'', icon = ''open-preview'',
                 TreeItemAction.tooltip = ''Highligh Declaration''\<rparr>])))"

subsection \<open>Rendering of modules, translation units and declarations\<close>

text \<open>
  \<^verbatim>\<open>
  function renderModuleDecl(ast: AST, moduleId: NodeID): TreeItem {
    const moduleDecl = asModuleDecl(node(ast, moduleId));
    return {
      icons: uniformIcon('file-submodule'),
      label: moduleDecl.baseName,
      value: JSON.stringify(moduleId),
      subItems: moduleDecl.sources.map((translationUnitId) =>
        renderTranslationUnitDecl(ast, translationUnitId))
    } satisfies TreeItem;
  }
  function renderTranslationUnitDecl(ast: AST, translationUnitId: NodeID): TreeItem {
    const translationUnit = asTranslationUnit(node(ast, translationUnitId));
    return {
      icons: uniformIcon('file'),
      label: translationUnit.site.fileUrl.split('/').pop()!,
      tooltip: translationUnit.site.fileUrl,
      value: JSON.stringify(translationUnitId),
      actions: [{ actionId: 'highlightFullDeclaration', icon: 'open-preview',
                  tooltip: 'Highligh Declaration' }],
      subItems: translationUnit.decls.map((declId) => renderAnyDecl(ast, declId))
    } satisfies TreeItem;
  }
  function renderAnyDecl(ast: AST, nodeId: NodeID): TreeItem {
    const n = node(ast, nodeId);
    switch (nodeKind(n)) {
      case 'ModuleDecl':      return renderModuleDecl(ast, nodeId);
      case 'FunctionDecl':    return renderFunctionDecl(ast, nodeId);
      case 'TranslationUnit': return renderTranslationUnitDecl(ast, nodeId);
      case 'missing':         return renderMissing(ast, nodeId);
      case 'ProductTypeDecl': return renderProductTypeDecl(ast, nodeId);
      case 'ParameterDecl':   return renderParameterDecl(ast, nodeId);
    }
  }
  \<close>
  The three functions call each other, and nothing in them stops on a snapshot whose
  references form a cycle (a translation unit that lists a module that lists the
  translation unit). The model gives them a bound on the depth of the nested calls as
  their first argument: each call of one of the three from another uses one unit, and a
  call with no unit left is \<open>Exhausted\<close>. The switch of \<open>renderAnyDecl\<close> has no default:
  for a key that is none of the six the function returns \<^verbatim>\<open>undefined\<close>, which is
  \<open>Returns None\<close>.
\<close>

fun renderModuleDecl :: "nat \<Rightarrow> (NodeID \<Rightarrow> string) \<Rightarrow> AST \<Rightarrow> NodeID \<Rightarrow> TreeItem result"
  and renderTranslationUnitDecl :: "nat \<Rightarrow> (NodeID \<Rightarrow> string) \<Rightarrow> AST \<Rightarrow> NodeID \<Rightarrow> TreeItem result"
  and renderAnyDecl :: "nat \<Rightarrow> (NodeID \<Rightarrow> string) \<Rightarrow> AST \<Rightarrow> NodeID \<Rightarrow> TreeItem option result"
where
  "renderModuleDecl 0 JSON_stringify ast moduleId = Exhausted"
| "renderModuleDecl (Suc depth) JSON_stringify ast moduleId =
     and_then (and_then (node ast moduleId) asModuleDecl) (\<lambda>moduleDecl.
       and_then (map_result (renderTranslationUnitDecl depth JSON_stringify ast)
                   (sources moduleDecl)) (\<lambda>items.
         Returns (TreeItem
           (uniformIcon ''file-submodule'')
           (baseName moduleDecl)
           None
           (JSON_stringify moduleId)
           (map Some items)
           None
           None)))"
| "renderTranslationUnitDecl 0 JSON_stringify ast translationUnitId = Exhausted"
| "renderTranslationUnitDecl (Suc depth) JSON_stringify ast translationUnitId =
     and_then (and_then (node ast translationUnitId) asTranslationUnit) (\<lambda>translationUnit.
       and_then (map_result (renderAnyDecl depth JSON_stringify ast)
                   (decls translationUnit)) (\<lambda>items.
         Returns (TreeItem
           (uniformIcon ''file'')
           (last (split (fileUrl (TranslationUnit.site translationUnit)) CHR ''/''))
           (Some (fileUrl (TranslationUnit.site translationUnit)))
           (JSON_stringify translationUnitId)
           items
           None
           (Some [\<lparr>actionId = ''highlightFullDeclaration'', icon = ''open-preview'',
                   TreeItemAction.tooltip = ''Highligh Declaration''\<rparr>]))))"
| "renderAnyDecl 0 JSON_stringify ast nodeId = Exhausted"
| "renderAnyDecl (Suc depth) JSON_stringify ast nodeId =
     and_then (node ast nodeId) (\<lambda>n.
       and_then (nodeKind n) (\<lambda>kind.
         if kind = ''ModuleDecl'' then
           and_then (renderModuleDecl depth JSON_stringify ast nodeId) (\<lambda>item. Returns (Some item))
         else if kind = ''FunctionDecl'' then
           and_then (renderFunctionDecl JSON_stringify ast nodeId) (\<lambda>item. Returns (Some item))
         else if kind = ''TranslationUnit'' then
           and_then (renderTranslationUnitDecl depth JSON_stringify ast nodeId)
             (\<lambda>item. Returns (Some item))
         else if kind = ''missing'' then
           and_then (renderMissing JSON_stringify ast nodeId) (\<lambda>item. Returns (Some item))
         else if kind = ''ProductTypeDecl'' then
           and_then (renderProductTypeDecl JSON_stringify ast nodeId) (\<lambda>item. Returns (Some item))
         else if kind = ''ParameterDecl'' then
           and_then (renderParameterDecl JSON_stringify ast nodeId) (\<lambda>item. Returns (Some item))
         else Returns None))"

section \<open>The explorer view and its event listeners (the webview script)\<close>

text \<open>
  The messages of \<^verbatim>\<open>messages.ts\<close>: \<^verbatim>\<open>{ type: 'openSourceFile', fileUrl }\<close> and
  \<^verbatim>\<open>{ type: 'highlightFullDeclaration', range }\<close>.
\<close>

datatype MessageFromFrontend =
    OpenFileMessage string
  | HighlightFullDeclarationMessage SourceRange

text \<open>An argument of a \<^verbatim>\<open>console.log\<close> call: a string or a source range.\<close>

datatype console_arg = Text string | Range SourceRange

text \<open>
  The state the listeners read and write: the text of the input field
  (\<^verbatim>\<open>this.astInput.value\<close>), the tree shown (\<^verbatim>\<open>this.astTreeView.data\<close>), the current
  snapshot (\<^verbatim>\<open>this.ast\<close>, \<^verbatim>\<open>null\<close> at first), and the two things the script does to
  the outside: the messages given to \<^verbatim>\<open>vscode.postMessage\<close> and the calls of
  \<^verbatim>\<open>console.log\<close>, both oldest first.
\<close>

record ASTExplorerView =
  astInput_value :: string
  astTreeView_data :: "TreeItem list"
  this_ast :: "AST option"
  posted :: "MessageFromFrontend list"
  console :: "console_arg list list"

definition postMessage :: "MessageFromFrontend \<Rightarrow> ASTExplorerView \<Rightarrow> ASTExplorerView" where
  "postMessage message v = v\<lparr>posted := posted v @ [message]\<rparr>"

definition console_log :: "console_arg list \<Rightarrow> ASTExplorerView \<Rightarrow> ASTExplorerView" where
  "console_log args v = v\<lparr>console := console v @ [args]\<rparr>"

text \<open>
  A listener ends by returning or by throwing out of the listener; either way the
  state it has written so far stays written. Its result is the completion and the state.

  \<^verbatim>\<open>
  updateAst(ast: AST) {
    this.ast = ast;
    this.astTreeView.data = ast.modulesIds.map((moduleId) => renderModuleDecl(ast, moduleId));
  }
  \<close>
  The argument is what \<^verbatim>\<open>JSON.parse\<close> returned, cast to \<^verbatim>\<open>AST\<close> without a check; the
  variable that holds it in the caller is declared \<^verbatim>\<open>AST | null\<close>. \<open>None\<close> is \<^verbatim>\<open>null\<close>
  (the text \<^verbatim>\<open>null\<close> is valid JSON), and reading \<^verbatim>\<open>ast.modulesIds\<close> from it throws a
  \<open>TypeError\<close>, after \<^verbatim>\<open>this.ast\<close> was assigned.
\<close>

definition updateAst ::
  "nat \<Rightarrow> (NodeID \<Rightarrow> string) \<Rightarrow> ASTExplorerView \<Rightarrow> AST option \<Rightarrow> unit result \<times> ASTExplorerView" where
  "updateAst depth JSON_stringify v ast =
     (let v1 = v\<lparr>this_ast := ast\<rparr> in
      case ast of
        None \<Rightarrow> (Throws TypeError, v1)
      | Some a \<Rightarrow>
          (case map_result (renderModuleDecl depth JSON_stringify a) (modulesIds a) of
             Returns items \<Rightarrow> (Returns (), v1\<lparr>astTreeView_data := items\<rparr>)
           | Throws e \<Rightarrow> (Throws e, v1)
           | Exhausted \<Rightarrow> (Exhausted, v1)))"

text \<open>
  \<^verbatim>\<open>
  this.astInput.addEventListener('input', () => {
    let ast: AST | null;
    try {
      ast = JSON.parse(this.astInput.value) as AST;
    } catch (e) {
      this.astTreeView.data = [];
      return;
    }
    this.updateAst(ast);
  });
  \<close>
  \<^verbatim>\<open>JSON.parse\<close> belongs to the runtime: the listener takes it as the parameter
  \<open>JSON_parse\<close>, which throws (\<open>Inl\<close>) or returns the parsed value (\<open>Inr\<close>).
\<close>

definition astInput_input ::
  "(string \<Rightarrow> js_error + AST option) \<Rightarrow> nat \<Rightarrow> (NodeID \<Rightarrow> string) \<Rightarrow> ASTExplorerView
     \<Rightarrow> unit result \<times> ASTExplorerView" where
  "astInput_input JSON_parse depth JSON_stringify v =
     (case JSON_parse (astInput_value v) of
        Inl e \<Rightarrow> (Returns (), v\<lparr>astTreeView_data := []\<rparr>)
      | Inr ast \<Rightarrow> updateAst depth JSON_stringify v ast)"

text \<open>
  \<^verbatim>\<open>node(this.ast!, nodeId)\<close> in a listener. The \<^verbatim>\<open>!\<close> is erased by the compiler, so the
  first argument is \<^verbatim>\<open>null\<close> until a snapshot has been set, and the second is what
  \<^verbatim>\<open>JSON.parse\<close> returned, which can be \<^verbatim>\<open>null\<close>. \<^verbatim>\<open>from.nodes\<close> and \<^verbatim>\<open>id.base\<close> on
  \<^verbatim>\<open>null\<close> throw a \<open>TypeError\<close>.
\<close>

definition node_of_view :: "ASTExplorerView \<Rightarrow> NodeID option \<Rightarrow> ASTNode option result" where
  "node_of_view v nodeId =
     (case this_ast v of
        None \<Rightarrow> Throws TypeError
      | Some a \<Rightarrow> (case nodeId of None \<Rightarrow> Throws TypeError | Some i \<Rightarrow> node a i))"

text \<open>
  \<^verbatim>\<open>
  this.astTreeView.addEventListener('vsc-select', ((e: CustomEvent) => {
    let nodeId: NodeID | null = null;
    try {
      nodeId = JSON.parse(e.detail.value) as NodeID | null;
      if (nodeId === null) { throw new Error('nodeId is null'); }
    } catch (err) {
      console.log('error parsing nodeId ', e.detail.value);
      return;
    }
    const n = node(this.ast!, nodeId);
    if (isTranslationUnit(n)) {
      postMessage({ type: 'openSourceFile', fileUrl: n.TranslationUnit.site.fileUrl });
    }
  }) as EventListener);
  \<close>
  \<open>detail_value\<close> is \<^verbatim>\<open>e.detail.value\<close>. \<^verbatim>\<open>n.TranslationUnit\<close> is read after the key
  was found in \<open>n\<close>, which is what \<open>asTranslationUnit\<close> returns then.
\<close>

definition vsc_select ::
  "(string \<Rightarrow> js_error + NodeID option) \<Rightarrow> ASTExplorerView \<Rightarrow> string
     \<Rightarrow> unit result \<times> ASTExplorerView" where
  "vsc_select JSON_parse v detail_value =
     (case JSON_parse detail_value of
        Inl err \<Rightarrow>
          (Returns (), console_log [Text ''error parsing nodeId '', Text detail_value] v)
      | Inr None \<Rightarrow>
          (Returns (), console_log [Text ''error parsing nodeId '', Text detail_value] v)
      | Inr (Some nodeId) \<Rightarrow>
          (case node_of_view v (Some nodeId) of
             Returns n \<Rightarrow>
               (case isTranslationUnit n of
                  Returns found \<Rightarrow>
                    (if found then
                       (case asTranslationUnit n of
                          Returns translationUnit \<Rightarrow>
                            (Returns (),
                             postMessage
                               (OpenFileMessage (fileUrl (TranslationUnit.site translationUnit))) v)
                        | Throws e \<Rightarrow> (Throws e, v)
                        | Exhausted \<Rightarrow> (Exhausted, v))
                     else (Returns (), v))
                | Throws e \<Rightarrow> (Throws e, v)
                | Exhausted \<Rightarrow> (Exhausted, v))
           | Throws e \<Rightarrow> (Throws e, v)
           | Exhausted \<Rightarrow> (Exhausted, v)))"

text \<open>
  \<^verbatim>\<open>
  this.astTreeView.addEventListener('vsc-run-action', ((e: CustomEvent) => {
    const actionId = e.detail.actionId;
    const item = e.detail.item;
    switch (actionId) {
      case 'openSourceFile':
        const translationUnitId = JSON.parse(item.value) as NodeID;
        const translationUnit = asTranslationUnit(node(this.ast!, translationUnitId));
        postMessage({ type: 'openSourceFile', fileUrl: translationUnit.site.fileUrl });
        break;
      case 'highlightFullDeclaration':
        console.log('highlightFullDeclaration');
        const nodeId = JSON.parse(item.value) as NodeID;
        const n = node(this.ast!, nodeId);
        const site = siteOf(n);
        if (site) {
          postMessage({ type: 'highlightFullDeclaration', range: site });
        }
    }
  }) as EventListener);
  \<close>
  Nothing is caught here. \<^verbatim>\<open>if (site)\<close> holds for a range and fails for \<^verbatim>\<open>null\<close> and
  \<^verbatim>\<open>undefined\<close>.
\<close>

definition vsc_run_action ::
  "(string \<Rightarrow> js_error + NodeID option) \<Rightarrow> ASTExplorerView \<Rightarrow> string \<Rightarrow> TreeItem
     \<Rightarrow> unit result \<times> ASTExplorerView" where
  "vsc_run_action JSON_parse v detail_actionId item =
     (if detail_actionId = ''openSourceFile'' then
        (case JSON_parse (item_value item) of
           Inl err \<Rightarrow> (Throws err, v)
         | Inr translationUnitId \<Rightarrow>
             (case and_then (node_of_view v translationUnitId) asTranslationUnit of
                Returns translationUnit \<Rightarrow>
                  (Returns (),
                   postMessage (OpenFileMessage (fileUrl (TranslationUnit.site translationUnit))) v)
              | Throws e \<Rightarrow> (Throws e, v)
              | Exhausted \<Rightarrow> (Exhausted, v)))
      else if detail_actionId = ''highlightFullDeclaration'' then
        (let v1 = console_log [Text ''highlightFullDeclaration''] v in
         case JSON_parse (item_value item) of
           Inl err \<Rightarrow> (Throws err, v1)
         | Inr nodeId \<Rightarrow>
             (case and_then (node_of_view v1 nodeId) siteOf of
                Returns (Present site') \<Rightarrow>
                  (Returns (), postMessage (HighlightFullDeclarationMessage site') v1)
              | Returns Null \<Rightarrow> (Returns (), v1)
              | Returns Undefined \<Rightarrow> (Returns (), v1)
              | Throws e \<Rightarrow> (Throws e, v1)
              | Exhausted \<Rightarrow> (Exhausted, v1)))
      else (Returns (), v))"

section \<open>The host side (the webview view provider)\<close>

subsection \<open>Numbers\<close>

text \<open>
  A line or a column is a JavaScript \<^verbatim>\<open>number\<close>, a double, that holds a whole number.
  The host subtracts on them, and a double subtraction is the exact difference rounded
  to the nearest double, ties to the even significand. A significand has 53 bits, so
  every whole number of magnitude below \<open>2 ^ 53\<close> is a double, and above that the doubles
  are \<open>ulp\<close> apart: 2 apart from \<open>2 ^ 53\<close> on, 4 apart from \<open>2 ^ 54\<close> on, and so on.
  \<open>double_of n\<close> is the double nearest to the whole number \<open>n\<close>, and \<open>number_minus a b\<close>
  is \<^verbatim>\<open>a - b\<close>. (No double has a magnitude of \<open>2 ^ 1024\<close> or more; a difference of a
  whole-number double and one never gets there.)
\<close>

function ulp :: "nat \<Rightarrow> nat" where
  "ulp a = (if a < 2 ^ 53 then 1 else 2 * ulp (a div 2))"
  by pat_completeness auto
termination
  by (relation "measure (\<lambda>a. a)") auto

declare ulp.simps [simp del]

definition double_of :: "int \<Rightarrow> int" where
  "double_of n =
     (let a = nat \<bar>n\<bar>;
          u = ulp a;
          q = a div u;
          r = a mod u;
          m = (if 2 * r < u \<or> (2 * r = u \<and> even q) then q else q + 1)
      in sgn n * int (m * u))"

definition number_minus :: "int \<Rightarrow> int \<Rightarrow> int" where
  "number_minus a b = double_of (a - b)"

subsection \<open>The editor's positions and ranges\<close>

text \<open>
  \<^verbatim>\<open>vscode.Position\<close> and \<^verbatim>\<open>vscode.Range\<close> are the editor's classes, not code of this
  program; the program calls the constructor of the second with four numbers. The
  editor implements them so:
  \<^verbatim>\<open>
  class Position {
    constructor(line: number, character: number) {
      if (line < 0) { throw illegalArgument('line must be non-negative'); }
      if (character < 0) { throw illegalArgument('character must be non-negative'); }
      this._line = line;
      this._character = character;
    }
    isBefore(other: Position): boolean {
      if (this._line < other._line) { return true; }
      if (other._line < this._line) { return false; }
      return this._character < other._character;
    }
  }
  class Range {
    constructor(startLine: number, startColumn: number, endLine: number, endColumn: number) {
      const start = new Position(startLine, startColumn);
      const end = new Position(endLine, endColumn);
      if (start.isBefore(end)) { this._start = start; this._end = end; }
      else { this._start = end; this._end = start; }
    }
  }
  \<close>
  where \<^verbatim>\<open>illegalArgument(name)\<close> is \<^verbatim>\<open>new Error(`Illegal argument: ${name}`)\<close>. A
  constructor that throws constructs nothing.
\<close>

record vscode_Position =
  position_line :: int
  position_character :: int

record vscode_Range =
  range_start :: vscode_Position
  range_end :: vscode_Position

definition illegalArgument :: "string \<Rightarrow> js_error" where
  "illegalArgument name' = Error (''Illegal argument: '' @ name')"

definition new_Position :: "int \<Rightarrow> int \<Rightarrow> vscode_Position result" where
  "new_Position line' character =
     (if line' < 0 then Throws (illegalArgument ''line must be non-negative'')
      else if character < 0 then Throws (illegalArgument ''character must be non-negative'')
      else Returns \<lparr>position_line = line', position_character = character\<rparr>)"

definition isBefore :: "vscode_Position \<Rightarrow> vscode_Position \<Rightarrow> bool" where
  "isBefore this other =
     (if position_line this < position_line other then True
      else if position_line other < position_line this then False
      else position_character this < position_character other)"

definition new_Range :: "int \<Rightarrow> int \<Rightarrow> int \<Rightarrow> int \<Rightarrow> vscode_Range result" where
  "new_Range startLine startColumn endLine endColumn =
     and_then (new_Position startLine startColumn) (\<lambda>start'.
       and_then (new_Position endLine endColumn) (\<lambda>end'.
         Returns (if isBefore start' end'
                  then \<lparr>range_start = start', range_end = end'\<rparr>
                  else \<lparr>range_start = end', range_end = start'\<rparr>)))"

subsection \<open>The message handler\<close>

text \<open>
  \<^verbatim>\<open>
  function toVscodeRange(range: SourceRange): vscode.Range {
    return new vscode.Range(
      range.start.line - 1, range.start.column - 1,
      range.end.line - 1, range.end.column - 1);
  }
  \<close>
\<close>

definition toVscodeRange :: "SourceRange \<Rightarrow> vscode_Range result" where
  "toVscodeRange range' =
     new_Range
       (number_minus (line (start range')) 1) (number_minus (column (start range')) 1)
       (number_minus (line (end range')) 1) (number_minus (column (end range')) 1)"

text \<open>
  \<^verbatim>\<open>
  webviewView.webview.onDidReceiveMessage((d) => {
    const data = d as MessageFromFrontend;
    switch (data.type) {
      case 'openSourceFile':
        console.log('openSourceFile', data.fileUrl);
        vscode.window.showTextDocument(vscode.Uri.parse(data.fileUrl), { preserveFocus: true });
        break;
      case 'highlightFullDeclaration':
        console.log('highlightFullDeclaration', data.range);
        vscode.window.showTextDocument(vscode.Uri.parse(data.range.fileUrl), {
          selection: toVscodeRange(data.range) });
    }
  });
  \<close>
  The editor is the collaborator. \<^verbatim>\<open>vscode.Uri.parse\<close> is its function: the handler takes
  it as the parameter \<open>Uri_parse\<close>, which throws (\<open>Inl\<close>, it does so on a text whose scheme
  has a character no scheme can have) or returns the resource (\<open>Inr\<close>). The model records
  each call of \<^verbatim>\<open>vscode.window.showTextDocument\<close>, with the resource and the options
  object it is given, and each call of \<^verbatim>\<open>console.log\<close>. The arguments of a call are
  evaluated from left to right before the call, and nothing is caught: when
  \<^verbatim>\<open>vscode.Uri.parse\<close> or \<open>toVscodeRange\<close> throws, \<^verbatim>\<open>showTextDocument\<close> is not called and
  the handler throws, after the log.
\<close>

record TextDocumentShowOptions =
  preserveFocus :: "bool option"
  selection :: "vscode_Range option"

record 'uri host =
  host_console :: "console_arg list list"
  showTextDocument :: "('uri \<times> TextDocumentShowOptions) list"

fun onDidReceiveMessage ::
  "(string \<Rightarrow> js_error + 'uri) \<Rightarrow> MessageFromFrontend \<Rightarrow> 'uri host \<Rightarrow> unit result \<times> 'uri host"
where
  "onDidReceiveMessage Uri_parse (OpenFileMessage url) h =
     (let h1 = h\<lparr>host_console := host_console h @ [[Text ''openSourceFile'', Text url]]\<rparr> in
      case Uri_parse url of
        Inl e \<Rightarrow> (Throws e, h1)
      | Inr uri \<Rightarrow>
          (Returns (),
           h1\<lparr>showTextDocument := showTextDocument h1 @
                 [(uri, \<lparr>preserveFocus = Some True, selection = None\<rparr>)]\<rparr>))"
| "onDidReceiveMessage Uri_parse (HighlightFullDeclarationMessage range') h =
     (let h1 = h\<lparr>host_console :=
                   host_console h @ [[Text ''highlightFullDeclaration'', Range range']]\<rparr> in
      case Uri_parse (fileUrl range') of
        Inl e \<Rightarrow> (Throws e, h1)
      | Inr uri \<Rightarrow>
          (case toVscodeRange range' of
             Returns selected \<Rightarrow>
               (Returns (),
                h1\<lparr>showTextDocument := showTextDocument h1 @
                      [(uri, \<lparr>preserveFocus = None, selection = Some selected\<rparr>)]\<rparr>)
           | Throws e \<Rightarrow> (Throws e, h1)
           | Exhausted \<Rightarrow> (Exhausted, h1)))"

section \<open>Words of the specification\<close>

text \<open>
  A \<open>NodeID\<close> is in bounds when its group is an index of the node storage and its
  offset is an index of that group's node sequence.
\<close>

definition in_bounds :: "AST \<Rightarrow> NodeID \<Rightarrow> bool" where
  "in_bounds from nid =
     (0 \<le> base nid \<and> base nid < int (length (nodes from)) \<and>
      0 \<le> offset nid \<and> offset nid < int (length (nodes from ! nat (base nid))))"

text \<open>The group alone is an index of the node storage.\<close>

definition group_in_bounds :: "AST \<Rightarrow> NodeID \<Rightarrow> bool" where
  "group_in_bounds from nid = (0 \<le> base nid \<and> base nid < int (length (nodes from)))"

text \<open>
  The node a \<open>NodeID\<close> resolves to: \<open>groups[g][o]\<close> when the pair is in bounds, and nothing
  otherwise.
\<close>

definition resolve :: "AST \<Rightarrow> NodeID \<Rightarrow> ASTNode option" where
  "resolve ast nid =
     (if in_bounds ast nid then Some (nodes ast ! nat (base nid) ! nat (offset nid)) else None)"

text \<open>
  A \<open>NodeID\<close> carried by an event is resolvable in the current snapshot when there is a
  snapshot and the pair is in bounds in it.
\<close>

definition resolvable :: "ASTExplorerView \<Rightarrow> NodeID \<Rightarrow> bool" where
  "resolvable v nid = (case this_ast v of None \<Rightarrow> False | Some a \<Rightarrow> in_bounds a nid)"

text \<open>A well-formed node is one of the six declared variants of the union.\<close>

fun declared_variant :: "ASTNode \<Rightarrow> bool" where
  "declared_variant (UnknownKind _) = False"
| "declared_variant _ = True"

fun is_ParameterDecl :: "ASTNode option \<Rightarrow> bool" where
  "is_ParameterDecl (Some (ParameterDecl _)) = True"
| "is_ParameterDecl _ = False"

text \<open>
  The shape of the snapshots on which the projection returns. Within \<open>depth\<close> nested
  references: a module entry resolves to a \<open>ModuleDecl\<close> whose sources are unit
  entries; a unit entry resolves to a \<open>TranslationUnit\<close> whose \<open>decls\<close> are
  declaration entries; a declaration entry resolves to some node, of any kind, the
  kinds outside the declared set included, where a \<open>ModuleDecl\<close> is a module entry
  again, a \<open>TranslationUnit\<close> is a unit entry again, and the parameters of a
  \<open>FunctionDecl\<close> resolve to \<open>ParameterDecl\<close> nodes. Every reference followed is in
  bounds (it resolves), and the references followed do not form a cycle (the depth is
  finite).
\<close>

fun projectable_module :: "nat \<Rightarrow> AST \<Rightarrow> NodeID \<Rightarrow> bool"
  and projectable_unit :: "nat \<Rightarrow> AST \<Rightarrow> NodeID \<Rightarrow> bool"
  and projectable_decl :: "nat \<Rightarrow> AST \<Rightarrow> NodeID \<Rightarrow> bool"
where
  "projectable_module 0 ast nid = False"
| "projectable_module (Suc depth) ast nid =
     (case resolve ast nid of
        Some (ModuleDecl m) \<Rightarrow> list_all (projectable_unit depth ast) (sources m)
      | _ \<Rightarrow> False)"
| "projectable_unit 0 ast nid = False"
| "projectable_unit (Suc depth) ast nid =
     (case resolve ast nid of
        Some (TranslationUnit t) \<Rightarrow> list_all (projectable_decl depth ast) (decls t)
      | _ \<Rightarrow> False)"
| "projectable_decl 0 ast nid = False"
| "projectable_decl (Suc depth) ast nid =
     (case resolve ast nid of
        None \<Rightarrow> False
      | Some (ModuleDecl m) \<Rightarrow> projectable_module depth ast nid
      | Some (TranslationUnit t) \<Rightarrow> projectable_unit depth ast nid
      | Some (FunctionDecl f) \<Rightarrow> list_all (\<lambda>p. is_ParameterDecl (resolve ast p)) (parameters f)
      | Some _ \<Rightarrow> True)"

text \<open>
  The shape of the top two levels alone: every entry of \<open>modulesIds\<close> resolves to a
  \<open>ModuleDecl\<close>, and every entry of the sources of each of these modules resolves to a
  \<open>TranslationUnit\<close>.
\<close>

definition top_two_levels :: "AST \<Rightarrow> bool" where
  "top_two_levels ast =
     list_all (\<lambda>m. case resolve ast m of
                 Some (ModuleDecl md) \<Rightarrow>
                   list_all (\<lambda>s. case resolve ast s of
                               Some (TranslationUnit _) \<Rightarrow> True
                             | _ \<Rightarrow> False) (sources md)
               | _ \<Rightarrow> False) (modulesIds ast)"

text \<open>
  The positions of a range on the wire are one-based: each line and each column is a
  whole number from 1 on (and below \<open>2 ^ 53\<close>, as the line and column numbers of a text
  are).
\<close>

definition one_based_positions :: "SourceRange \<Rightarrow> bool" where
  "one_based_positions r =
     (1 \<le> line (start r) \<and> line (start r) < 2 ^ 53 \<and>
      1 \<le> column (start r) \<and> column (start r) < 2 ^ 53 \<and>
      1 \<le> line (end r) \<and> line (end r) < 2 ^ 53 \<and>
      1 \<le> column (end r) \<and> column (end r) < 2 ^ 53)"

text \<open>
  The start of a range is not after its end: it is on an earlier line, or on the same
  line at no later column.
\<close>

definition start_not_after_end :: "SourceRange \<Rightarrow> bool" where
  "start_not_after_end r =
     (line (start r) < line (end r) \<or>
      (line (start r) = line (end r) \<and> column (start r) \<le> column (end r)))"

section \<open>Concrete inputs\<close>

text \<open>
  The source ranges and snapshots of the scenarios. \<open>sample_ast\<close> is one module \<open>M\<close> with
  one translation unit \<^verbatim>\<open>file:///a.src\<close> that declares a function \<open>main\<close> without
  parameters, a \<open>missing\<close> node and a node whose key \<^verbatim>\<open>ConformanceDecl\<close> is not a declared
  one; a second group holds one parameter declaration.
\<close>

definition range_a :: SourceRange where
  "range_a = \<lparr>start = \<lparr>line = 1, column = 1\<rparr>, end = \<lparr>line = 3, column = 2\<rparr>,
              fileUrl = ''file:///a.src''\<rparr>"

definition range_b :: SourceRange where
  "range_b = \<lparr>start = \<lparr>line = 8, column = 8\<rparr>, end = \<lparr>line = 8, column = 18\<rparr>,
              fileUrl = ''file:///b.src''\<rparr>"

definition synthesized :: SourceRange where
  "synthesized = \<lparr>start = \<lparr>line = 1, column = 1\<rparr>, end = \<lparr>line = 1, column = 22\<rparr>,
                  fileUrl = ''synthesized://M''\<rparr>"

definition parameter_b :: ParameterDecl where
  "parameter_b = \<lparr>ParameterDecl.site = range_b, label = None, identifier = ''a''\<rparr>"

definition module_M :: ModuleDecl where
  "module_M = \<lparr>baseName = ''M'', canAccessBuiltins = False, ModuleDecl.site = synthesized,
               sources = [\<lparr>base = 0, offset = 1\<rparr>]\<rparr>"

definition function_main :: FunctionDecl where
  "function_main = \<lparr>FunctionDecl.name = ''main'', FunctionDecl.site = range_a, parameters = []\<rparr>"

definition sample_ast :: AST where
  "sample_ast =
     \<lparr>modulesIds = [\<lparr>base = 0, offset = 0\<rparr>],
      nodes = [[ModuleDecl module_M,
                TranslationUnit \<lparr>decls = [\<lparr>base = 0, offset = 2\<rparr>, \<lparr>base = 0, offset = 3\<rparr>,
                                           \<lparr>base = 0, offset = 4\<rparr>],
                                 TranslationUnit.site = range_a\<rparr>,
                FunctionDecl function_main,
                missing,
                UnknownKind (Abs_other_key ''ConformanceDecl'')],
               [ParameterDecl parameter_b]]\<rparr>"

text \<open>A snapshot whose only module entry is a \<open>missing\<close> node.\<close>

definition one_missing :: AST where
  "one_missing = \<lparr>modulesIds = [\<lparr>base = 0, offset = 0\<rparr>], nodes = [[missing]]\<rparr>"



text \<open>
  A snapshot whose references are in bounds and form a cycle: the module lists the
  translation unit, which lists the module among its declarations.
\<close>

definition cyclic_ast :: AST where
  "cyclic_ast =
     \<lparr>modulesIds = [\<lparr>base = 0, offset = 0\<rparr>],
      nodes = [[ModuleDecl module_M,
                TranslationUnit \<lparr>decls = [\<lparr>base = 0, offset = 0\<rparr>],
                                 TranslationUnit.site = range_a\<rparr>]]\<rparr>"

text \<open>
  The functions of the runtime on the texts of the examples. \<open>stringify_digits\<close> is
  \<^verbatim>\<open>JSON.stringify\<close> on a \<open>NodeID\<close> whose two numbers have one digit. \<open>parse_input\<close> is
  \<^verbatim>\<open>JSON.parse\<close> on the two input texts it is applied to: \<^verbatim>\<open>null\<close>, which is valid JSON
  for the value \<^verbatim>\<open>null\<close>, and \<^verbatim>\<open>{not json\<close>, which is not JSON. \<open>parse_value\<close> is
  \<^verbatim>\<open>JSON.parse\<close> on the item values it is applied to.
\<close>

definition stringify_digits :: "NodeID \<Rightarrow> string" where
  "stringify_digits nid =
     ''{\"base\":'' @ [''0123456789'' ! nat (base nid)] @
     '',\"offset\":'' @ [''0123456789'' ! nat (offset nid)] @ ''}''"

definition parse_input :: "string \<Rightarrow> js_error + AST option" where
  "parse_input text = (if text = ''null'' then Inr None else Inl SyntaxError)"

definition parse_value :: "string \<Rightarrow> js_error + NodeID option" where
  "parse_value text =
     (if text = ''{\"base\":0,\"offset\":1}'' then Inr (Some \<lparr>base = 0, offset = 1\<rparr>)
      else if text = ''{\"base\":0,\"offset\":2}'' then Inr (Some \<lparr>base = 0, offset = 2\<rparr>)
      else if text = ''{\"base\":0,\"offset\":9}'' then Inr (Some \<lparr>base = 0, offset = 9\<rparr>)
      else if text = ''{\"base\":1,\"offset\":0}'' then Inr (Some \<lparr>base = 1, offset = 0\<rparr>)
      else if text = ''null'' then Inr None
      else Inl SyntaxError)"

text \<open>
  The synthetic \<^verbatim>\<open>parameters\<close> entry of a function without parameters, the view before
  any input, and the view that shows \<open>sample_ast\<close>.
\<close>

definition parameters_item :: TreeItem where
  "parameters_item =
     TreeItem (uniformIcon ''symbol-property'') ''parameters'' None ''n'' [] None None"

definition view0 :: ASTExplorerView where
  "view0 = \<lparr>astInput_value = [], astTreeView_data = [], this_ast = None, posted = [],
            console = []\<rparr>"

definition sample_view :: ASTExplorerView where
  "sample_view = view0\<lparr>this_ast := Some sample_ast\<rparr>"

section \<open>Properties\<close>

subsection \<open>Completions and \<open>map\<close>\<close>


lemma and_then_not_Exhausted:
  "and_then m f \<noteq> Exhausted \<Longrightarrow> m \<noteq> Exhausted"
  by (cases m) simp_all




lemma map_result_all_return:
  "list_all (\<lambda>x. \<exists>y. f x = Returns y) xs \<Longrightarrow> \<exists>ys. map_result f xs = Returns ys"
  by (induction xs) auto



text \<open>
  Two callbacks that agree wherever the first is not cut off give the same call,
  provided the call with the first is not cut off.
\<close>

lemma map_result_mono:
  assumes "\<And>x. x \<in> set xs \<Longrightarrow> f x \<noteq> Exhausted \<Longrightarrow> g x = f x"
    and "map_result f xs \<noteq> Exhausted"
  shows "map_result g xs = map_result f xs"
  using assms
proof (induction xs)
  case Nil
  show ?case by simp
next
  case (Cons x xs)
  show ?case
  proof (cases "f x")
    case (Returns y)
    then have gx: "g x = Returns y" using Cons.prems(1) [of x] by simp
    from Returns Cons.prems(2) have "map_result f xs \<noteq> Exhausted"
      by (cases "map_result f xs") simp_all
    then have "map_result g xs = map_result f xs"
      using Cons.IH Cons.prems(1) by simp
    with gx Returns show ?thesis by simp
  next
    case (Throws e)
    then have "g x = Throws e" using Cons.prems(1) [of x] by simp
    with Throws show ?thesis by simp
  next
    case Exhausted
    with Cons.prems(2) show ?thesis by simp
  qed
qed

subsection \<open>The node store does not check bounds\<close>

lemma node_in_bounds:
  "in_bounds from nid \<Longrightarrow>
   node from nid = Returns (Some (nodes from ! nat (base nid) ! nat (offset nid)))"
  by (simp add: node_def in_bounds_def element_def)

lemma node_group_out_of_range:
  "\<not> group_in_bounds from nid \<Longrightarrow> node from nid = Throws TypeError"
  by (auto simp: node_def group_in_bounds_def element_def)

lemma node_offset_out_of_range:
  "group_in_bounds from nid \<Longrightarrow> \<not> in_bounds from nid \<Longrightarrow> node from nid = Returns None"
  by (auto simp: node_def group_in_bounds_def in_bounds_def element_def)

lemma node_Some_iff_resolve:
  "node ast nid = Returns (Some n) \<longleftrightarrow> resolve ast nid = Some n"
  by (auto simp: resolve_def node_def in_bounds_def element_def split: if_splits option.splits)

lemma node_resolve:
  "resolve ast nid = Some n \<Longrightarrow> node ast nid = Returns (Some n)"
  by (simp add: node_Some_iff_resolve)

lemma node_not_in_bounds:
  "\<not> in_bounds ast nid \<Longrightarrow> node ast nid = Throws TypeError \<or> node ast nid = Returns None"
  using node_group_out_of_range [of ast nid] node_offset_out_of_range [of ast nid] by blast

text \<open>
  C1, as the specification states it, asks that a lookup with a group or an offset out
  of bounds fails with an out-of-range error of its own and never returns a value. The
  code returns \<^verbatim>\<open>undefined\<close> (and throws nothing) for an offset past the end of an
  existing group: here at offset 1 of a group of one node.
\<close>

theorem node_offset_past_end_returns_undefined:
  "node \<lparr>modulesIds = [], nodes = [[missing]]\<rparr> \<lparr>base = 0, offset = 1\<rparr> = Returns None"
  by (simp add: node_def element_def)

text \<open>
  C1, amended: for a \<open>NodeID\<close> out of bounds the lookup never returns a node, so in
  particular never a \<open>missing\<close> node; but there is no out-of-range error of its own.
  When the group is out of range the runtime's \<open>TypeError\<close> is thrown, and when the
  group is in range and the offset is not, the lookup returns \<^verbatim>\<open>undefined\<close> and does
  not fail.
\<close>

theorem node_out_of_bounds:
  assumes "\<not> in_bounds from nid"
  shows "node from nid = (if group_in_bounds from nid then Returns None else Throws TypeError) \<and>
         (\<forall>n. node from nid \<noteq> Returns (Some n))"
proof -
  have eq: "node from nid =
           (if group_in_bounds from nid then Returns None else Throws TypeError)"
  proof (cases "group_in_bounds from nid")
    case True
    with assms show ?thesis by (simp add: node_offset_out_of_range)
  next
    case False
    then show ?thesis by (simp add: node_group_out_of_range)
  qed
  then show ?thesis by simp
qed

theorem node_out_of_bounds_witness:
  "\<not> in_bounds one_missing \<lparr>base = 0, offset = 5\<rparr> \<and>
   \<not> in_bounds one_missing \<lparr>base = - 1, offset = 0\<rparr> \<and>
   node one_missing \<lparr>base = 0, offset = 5\<rparr> = Returns None \<and>
   node one_missing \<lparr>base = - 1, offset = 0\<rparr> = Throws TypeError \<and>
   node one_missing \<lparr>base = 0, offset = 5\<rparr> \<noteq> Returns (Some missing)"
proof -
  have a: "\<not> in_bounds one_missing \<lparr>base = 0, offset = 5\<rparr>"
    by (simp add: in_bounds_def one_missing_def)
  have b: "\<not> in_bounds one_missing \<lparr>base = - 1, offset = 0\<rparr>"
    by (simp add: in_bounds_def one_missing_def)
  have c: "group_in_bounds one_missing \<lparr>base = 0, offset = 5\<rparr>"
    by (simp add: group_in_bounds_def one_missing_def)
  have d: "\<not> group_in_bounds one_missing \<lparr>base = - 1, offset = 0\<rparr>"
    by (simp add: group_in_bounds_def one_missing_def)
  show ?thesis
    using a b c d node_out_of_bounds [OF a] node_out_of_bounds [OF b]
    by simp
qed

subsection \<open>The accessors\<close>









lemma other_key_not_declared:
  "Rep_other_key k \<noteq> ''missing''" "Rep_other_key k \<noteq> ''FunctionDecl''"
  "Rep_other_key k \<noteq> ''TranslationUnit''" "Rep_other_key k \<noteq> ''ModuleDecl''"
  "Rep_other_key k \<noteq> ''ProductTypeDecl''" "Rep_other_key k \<noteq> ''ParameterDecl''"
  using Rep_other_key [of k] by (auto simp: declared_kinds_def)


lemma isTranslationUnit_Some:
  "isTranslationUnit (Some n) = Returns (\<exists>t. n = TranslationUnit t)"
  by (cases n) (simp_all add: isTranslationUnit_def other_key_not_declared [symmetric])

subsection \<open>The source-site resolver\<close>

lemma siteOf_simps:
  "siteOf None = Throws TypeError"
  "siteOf (Some missing) = Returns Null"
  "siteOf (Some (ModuleDecl m)) = Returns Null"
  "siteOf (Some (FunctionDecl f)) = Returns (Present (FunctionDecl.site f))"
  "siteOf (Some (TranslationUnit t)) = Returns (Present (TranslationUnit.site t))"
  "siteOf (Some (ProductTypeDecl p)) = Returns (Present (ProductTypeDecl.site p))"
  "siteOf (Some (ParameterDecl q)) = Returns (Present (ParameterDecl.site q))"
  "siteOf (Some (UnknownKind k)) = Returns Undefined"
  by (simp_all add: siteOf_def other_key_not_declared)

text \<open>
  C6: on a well-formed node, \<open>siteOf\<close> returns \<^verbatim>\<open>null\<close> exactly when the kind is
  \<open>ModuleDecl\<close> or \<open>missing\<close>, and for a \<open>FunctionDecl\<close>, a \<open>TranslationUnit\<close>, a
  \<open>ProductTypeDecl\<close> and a \<open>ParameterDecl\<close> it returns the node's own \<open>site\<close>.
\<close>

theorem siteOf_absent_iff:
  assumes "declared_variant n"
  shows "((siteOf (Some n) = Returns Null) =
            (nodeKind (Some n) = Returns ''ModuleDecl'' \<or> nodeKind (Some n) = Returns ''missing'')) \<and>
         (case n of
            FunctionDecl f \<Rightarrow> siteOf (Some n) = Returns (Present (FunctionDecl.site f))
          | TranslationUnit t \<Rightarrow> siteOf (Some n) = Returns (Present (TranslationUnit.site t))
          | ProductTypeDecl p \<Rightarrow> siteOf (Some n) = Returns (Present (ProductTypeDecl.site p))
          | ParameterDecl q \<Rightarrow> siteOf (Some n) = Returns (Present (ParameterDecl.site q))
          | _ \<Rightarrow> siteOf (Some n) = Returns Null)"
  using assms by (cases n) (simp_all add: siteOf_simps)

theorem siteOf_absent_iff_witness:
  "declared_variant (ParameterDecl parameter_b) \<and>
   siteOf (Some (ParameterDecl parameter_b)) = Returns (Present range_b) \<and>
   siteOf (Some (ParameterDecl parameter_b)) \<noteq> Returns Null \<and>
   declared_variant missing \<and> siteOf (Some missing) = Returns Null"
proof -
  have a: "declared_variant (ParameterDecl parameter_b)" by simp
  have b: "declared_variant missing" by simp
  have c: "ParameterDecl.site parameter_b = range_b" by (simp add: parameter_b_def)
  show ?thesis
    using a b c siteOf_absent_iff [OF a] siteOf_absent_iff [OF b]
    by simp
qed

subsection \<open>The depth bound of the projection\<close>

text \<open>
  The bound is no part of the result: a call that is not cut off at one depth gives the
  same completion at every greater depth.
\<close>

lemma render_Suc:
  "(renderModuleDecl d J ast nid \<noteq> Exhausted \<longrightarrow>
      renderModuleDecl (Suc d) J ast nid = renderModuleDecl d J ast nid) \<and>
   (renderTranslationUnitDecl d J ast nid \<noteq> Exhausted \<longrightarrow>
      renderTranslationUnitDecl (Suc d) J ast nid = renderTranslationUnitDecl d J ast nid) \<and>
   (renderAnyDecl d J ast nid \<noteq> Exhausted \<longrightarrow>
      renderAnyDecl (Suc d) J ast nid = renderAnyDecl d J ast nid)"
proof (induction d arbitrary: nid)
  case 0
  show ?case by simp
next
  case (Suc d)
  have m: "renderModuleDecl (Suc (Suc d)) J ast nid = renderModuleDecl (Suc d) J ast nid"
    if ne: "renderModuleDecl (Suc d) J ast nid \<noteq> Exhausted"
  proof (cases "and_then (node ast nid) asModuleDecl")
    case (Returns md)
    with ne have "map_result (renderTranslationUnitDecl d J ast) (sources md) \<noteq> Exhausted"
      by (auto dest: and_then_not_Exhausted)
    then have "map_result (renderTranslationUnitDecl (Suc d) J ast) (sources md) =
               map_result (renderTranslationUnitDecl d J ast) (sources md)"
      using Suc.IH by (intro map_result_mono) auto
    with Returns show ?thesis by simp
  qed simp_all
  have u: "renderTranslationUnitDecl (Suc (Suc d)) J ast nid =
           renderTranslationUnitDecl (Suc d) J ast nid"
    if ne: "renderTranslationUnitDecl (Suc d) J ast nid \<noteq> Exhausted"
  proof (cases "and_then (node ast nid) asTranslationUnit")
    case (Returns tu)
    with ne have "map_result (renderAnyDecl d J ast) (decls tu) \<noteq> Exhausted"
      by (auto dest: and_then_not_Exhausted)
    then have "map_result (renderAnyDecl (Suc d) J ast) (decls tu) =
               map_result (renderAnyDecl d J ast) (decls tu)"
      using Suc.IH by (intro map_result_mono) auto
    with Returns show ?thesis by simp
  qed simp_all
  have a: "renderAnyDecl (Suc (Suc d)) J ast nid = renderAnyDecl (Suc d) J ast nid"
    if ne: "renderAnyDecl (Suc d) J ast nid \<noteq> Exhausted"
  proof (cases "node ast nid")
    case (Returns n)
    show ?thesis
    proof (cases "nodeKind n")
      case k: (Returns kind)
      have 1: "renderModuleDecl (Suc d) J ast nid = renderModuleDecl d J ast nid"
        if "kind = ''ModuleDecl''"
        using that ne Returns k Suc.IH [of nid] by (auto dest: and_then_not_Exhausted)
      have 2: "renderTranslationUnitDecl (Suc d) J ast nid = renderTranslationUnitDecl d J ast nid"
        if "kind = ''TranslationUnit''"
        using that ne Returns k Suc.IH [of nid] by (auto dest: and_then_not_Exhausted)
      show ?thesis
        using Returns k 1 2 by simp
    qed (simp_all add: Returns)
  qed simp_all
  from m u a show ?case by blast
qed

lemma renderModuleDecl_mono:
  "d \<le> d' \<Longrightarrow> renderModuleDecl d J ast nid \<noteq> Exhausted \<Longrightarrow>
   renderModuleDecl d' J ast nid = renderModuleDecl d J ast nid"
proof (induction d')
  case 0
  then show ?case by simp
next
  case (Suc d')
  show ?case
  proof (cases "d = Suc d'")
    case False
    with Suc.prems have "d \<le> d'" by simp
    with Suc.IH Suc.prems(2) render_Suc [of d' J ast nid] show ?thesis by simp
  qed simp
qed

subsection \<open>When the projection returns\<close>

lemma renderParameterDecl_returns:
  "is_ParameterDecl (resolve ast p) \<Longrightarrow> \<exists>item. renderParameterDecl J ast p = Returns item"
  by (cases "resolve ast p" rule: is_ParameterDecl.cases)
     (auto simp: renderParameterDecl_def dest: node_resolve)


lemma renderFunctionDecl_returns:
  assumes "resolve ast nid = Some (FunctionDecl f)"
    and "list_all (\<lambda>p. is_ParameterDecl (resolve ast p)) (parameters f)"
  shows "\<exists>item. renderFunctionDecl J ast nid = Returns item"
proof -
  from assms(2) have "list_all (\<lambda>p. \<exists>y. renderParameterDecl J ast p = Returns y) (parameters f)"
    by (auto simp: list_all_iff dest: renderParameterDecl_returns)
  then obtain ps where "map_result (renderParameterDecl J ast) (parameters f) = Returns ps"
    using map_result_all_return by blast
  with node_resolve [OF assms(1)] show ?thesis
    by (simp add: renderFunctionDecl_def)
qed


text \<open>On a snapshot of the shape \<open>projectable\<close> the three functions return.\<close>

lemma projectable_renders:
  "(projectable_module d ast nid \<longrightarrow> (\<exists>item. renderModuleDecl d J ast nid = Returns item)) \<and>
   (projectable_unit d ast nid \<longrightarrow> (\<exists>item. renderTranslationUnitDecl d J ast nid = Returns item)) \<and>
   (projectable_decl d ast nid \<longrightarrow> (\<exists>item. renderAnyDecl d J ast nid = Returns item))"
proof (induction d arbitrary: nid)
  case 0
  show ?case by simp
next
  case (Suc d)
  have m: "\<exists>item. renderModuleDecl (Suc d) J ast nid = Returns item"
    if "projectable_module (Suc d) ast nid"
  proof -
    from that obtain m where r: "resolve ast nid = Some (ModuleDecl m)"
      and all: "list_all (projectable_unit d ast) (sources m)"
      by (auto split: option.splits ASTNode.splits)
    from all have "list_all (\<lambda>x. \<exists>y. renderTranslationUnitDecl d J ast x = Returns y) (sources m)"
      using Suc.IH by (auto simp: list_all_iff)
    then obtain items where
      "map_result (renderTranslationUnitDecl d J ast) (sources m) = Returns items"
      using map_result_all_return by blast
    with node_resolve [OF r] show ?thesis by simp
  qed
  have u: "\<exists>item. renderTranslationUnitDecl (Suc d) J ast nid = Returns item"
    if "projectable_unit (Suc d) ast nid"
  proof -
    from that obtain t where r: "resolve ast nid = Some (TranslationUnit t)"
      and all: "list_all (projectable_decl d ast) (decls t)"
      by (auto split: option.splits ASTNode.splits)
    from all have "list_all (\<lambda>x. \<exists>y. renderAnyDecl d J ast x = Returns y) (decls t)"
      using Suc.IH by (auto simp: list_all_iff)
    then obtain items where
      "map_result (renderAnyDecl d J ast) (decls t) = Returns items"
      using map_result_all_return by blast
    with node_resolve [OF r] show ?thesis by simp
  qed
  have a: "\<exists>item. renderAnyDecl (Suc d) J ast nid = Returns item"
    if p: "projectable_decl (Suc d) ast nid"
  proof -
    from p obtain n where r: "resolve ast nid = Some n"
      by (auto split: option.splits)
    note nd = node_resolve [OF r]
    show ?thesis
    proof (cases n)
      case missing
      with nd show ?thesis by (simp add: renderMissing_def)
    next
      case (FunctionDecl f)
      with p r have "list_all (\<lambda>p. is_ParameterDecl (resolve ast p)) (parameters f)" by simp
      from renderFunctionDecl_returns [OF r [unfolded FunctionDecl] this, of J]
      obtain item where "renderFunctionDecl J ast nid = Returns item" by blast
      with nd FunctionDecl show ?thesis by simp
    next
      case (TranslationUnit t)
      with p r have "projectable_unit d ast nid" by simp
      with Suc.IH obtain item where "renderTranslationUnitDecl d J ast nid = Returns item" by blast
      with nd TranslationUnit show ?thesis by simp
    next
      case (ModuleDecl m)
      with p r have "projectable_module d ast nid" by simp
      with Suc.IH obtain item where "renderModuleDecl d J ast nid = Returns item" by blast
      with nd ModuleDecl show ?thesis by simp
    next
      case (ProductTypeDecl q)
      with nd show ?thesis by (simp add: renderProductTypeDecl_def)
    next
      case (ParameterDecl q)
      with nd show ?thesis by (simp add: renderParameterDecl_def)
    next
      case (UnknownKind k)
      with nd show ?thesis by (simp add: other_key_not_declared)
    qed
  qed
  from m u a show ?case by blast
qed





subsection \<open>Evaluation on the concrete snapshots\<close>

lemma sample_ast_projectable:
  "list_all (projectable_module 3 sample_ast) (modulesIds sample_ast)"
  by (simp add: sample_ast_def module_M_def function_main_def numeral_3_eq_3 resolve_def
      in_bounds_def)



subsection \<open>Projection of a snapshot whose references are in bounds\<close>

text \<open>
  C2, as the specification states it, says that the projection never throws when every
  \<open>NodeID\<close> referenced is in bounds. In \<open>one_missing\<close> the only reference is in bounds
  and resolves to a \<open>missing\<close> node; \<open>renderModuleDecl\<close> gives it to \<open>asModuleDecl\<close>, which
  throws.
\<close>

theorem projection_throws_on_missing_module:
  "in_bounds one_missing \<lparr>base = 0, offset = 0\<rparr> \<and>
   modulesIds one_missing = [\<lparr>base = 0, offset = 0\<rparr>] \<and>
   updateAst 1 stringify_digits view0 (Some one_missing) =
     (Throws (Error ''Expected ModuleDecl''), view0\<lparr>this_ast := Some one_missing\<rparr>)"
  by (simp add: in_bounds_def one_missing_def updateAst_def node_def element_def)

text \<open>
  C2, amended: the projection returns (it ends and throws nothing) on every snapshot
  in which every \<open>NodeID\<close> referenced during the traversal is in bounds, every entry of
  \<open>modulesIds\<close> resolves to a \<open>ModuleDecl\<close>, every source of a module to a
  \<open>TranslationUnit\<close>, every parameter of a function to a \<open>ParameterDecl\<close>, and the
  references followed form no cycle; the nodes listed in the \<open>decls\<close> of a translation
  unit can be of any kind, outside the declared set too. The tree is the same at every
  depth bound from the depth of the snapshot on.
\<close>

theorem projection_returns:
  assumes "list_all (projectable_module depth ast) (modulesIds ast)"
  shows "\<exists>items. \<forall>d\<ge>depth.
           updateAst d JSON_stringify v (Some ast) =
             (Returns (), v\<lparr>this_ast := Some ast, astTreeView_data := items\<rparr>)"
proof -
  let ?f = "renderModuleDecl depth JSON_stringify ast"
  from assms have "list_all (\<lambda>x. \<exists>y. ?f x = Returns y) (modulesIds ast)"
    using projectable_renders [of depth ast _ JSON_stringify] by (auto simp: list_all_iff)
  then obtain items where items: "map_result ?f (modulesIds ast) = Returns items"
    using map_result_all_return by blast
  have "updateAst d JSON_stringify v (Some ast) =
          (Returns (), v\<lparr>this_ast := Some ast, astTreeView_data := items\<rparr>)"
    if "depth \<le> d" for d
  proof -
    have "map_result (renderModuleDecl d JSON_stringify ast) (modulesIds ast) =
          map_result ?f (modulesIds ast)"
      using that items by (intro map_result_mono) (simp_all add: renderModuleDecl_mono)
    with items show ?thesis by (simp add: updateAst_def)
  qed
  then show ?thesis by blast
qed

theorem projection_returns_witness:
  "list_all (projectable_module 3 sample_ast) (modulesIds sample_ast) \<and>
   nodes sample_ast ! 0 ! 4 = UnknownKind (Abs_other_key ''ConformanceDecl'') \<and>
   (\<exists>items. \<forall>d\<ge>3.
      updateAst d stringify_digits view0 (Some sample_ast) =
        (Returns (), view0\<lparr>this_ast := Some sample_ast, astTreeView_data := items\<rparr>))"
proof -
  have "nodes sample_ast ! 0 ! 4 = UnknownKind (Abs_other_key ''ConformanceDecl'')"
    by (simp add: sample_ast_def)
  then show ?thesis
    using sample_ast_projectable
      projection_returns [OF sample_ast_projectable, of stringify_digits view0]
    by simp
qed

text \<open>
  The condition on cycles cannot be dropped. On \<open>cyclic_ast\<close> every reference is in
  bounds and the top two levels have the kinds the projection expects, and the three
  functions call each other without end: the projection is cut off at every depth
  bound. (The runtime ends such a recursion by throwing when its call stack is full.)
\<close>

lemma cyclic_ast_nodes:
  "node cyclic_ast \<lparr>base = 0, offset = 0\<rparr> = Returns (Some (ModuleDecl module_M))"
  "node cyclic_ast \<lparr>base = 0, offset = 1\<rparr> =
     Returns (Some (TranslationUnit \<lparr>decls = [\<lparr>base = 0, offset = 0\<rparr>],
                                     TranslationUnit.site = range_a\<rparr>))"
  by (simp_all add: cyclic_ast_def node_def element_def)

lemma cyclic_ast_Exhausted:
  "renderModuleDecl d J cyclic_ast \<lparr>base = 0, offset = 0\<rparr> = Exhausted \<and>
   renderTranslationUnitDecl d J cyclic_ast \<lparr>base = 0, offset = 1\<rparr> = Exhausted \<and>
   renderAnyDecl d J cyclic_ast \<lparr>base = 0, offset = 0\<rparr> = Exhausted"
proof (induction d)
  case 0
  show ?case by simp
next
  case (Suc d)
  then show ?case
    by (simp add: cyclic_ast_nodes module_M_def)
qed

lemma cyclic_ast_never_returns:
  "top_two_levels cyclic_ast \<and>
   updateAst d J v (Some cyclic_ast) = (Exhausted, v\<lparr>this_ast := Some cyclic_ast\<rparr>)"
proof -
  have "top_two_levels cyclic_ast"
    by (simp add: top_two_levels_def cyclic_ast_def module_M_def resolve_def in_bounds_def)
  moreover have "modulesIds cyclic_ast = [\<lparr>base = 0, offset = 0\<rparr>]"
    by (simp add: cyclic_ast_def)
  ultimately show ?thesis
    using cyclic_ast_Exhausted [of d J] by (simp add: updateAst_def)
qed

subsection \<open>Nodes that are \<open>missing\<close> or of an undeclared kind\<close>






subsection \<open>The top two levels of a snapshot\<close>







subsection \<open>The input listener\<close>

text \<open>
  C3, as the specification states it, says that an input that is valid structured data
  but has not the shape of an \<open>AST\<close> gives an empty tree and no exception. The text
  \<^verbatim>\<open>null\<close> is such an input. \<^verbatim>\<open>JSON.parse\<close> returns \<^verbatim>\<open>null\<close>, nothing is caught after the
  parse, and \<open>updateAst\<close> throws a \<open>TypeError\<close> out of the listener; the tree shown before
  (here one item) stays.
\<close>

theorem input_null_throws:
  "astInput_input parse_input 3 stringify_digits
     (view0\<lparr>astInput_value := ''null'', astTreeView_data := [parameters_item]\<rparr>) =
   (Throws TypeError,
    view0\<lparr>astInput_value := ''null'', astTreeView_data := [parameters_item]\<rparr>)"
  by (simp add: astInput_input_def parse_input_def updateAst_def view0_def)

text \<open>
  C3, amended: for every input text that is not valid structured data (\<^verbatim>\<open>JSON.parse\<close>
  throws), the input listener sets the projected tree to the empty sequence, and no
  exception leaves the listener.
\<close>

theorem input_not_json_gives_empty_tree:
  assumes "JSON_parse (astInput_value v) = Inl e"
  shows "astInput_input JSON_parse depth JSON_stringify v =
           (Returns (), v\<lparr>astTreeView_data := []\<rparr>)"
  using assms by (simp add: astInput_input_def)

theorem input_not_json_gives_empty_tree_witness:
  "parse_input ''{not json'' = Inl SyntaxError \<and>
   astInput_input parse_input 3 stringify_digits
     (view0\<lparr>astInput_value := ''{not json'', astTreeView_data := [parameters_item]\<rparr>) =
   (Returns (), view0\<lparr>astInput_value := ''{not json''\<rparr>)"
proof -
  let ?v = "view0\<lparr>astInput_value := ''{not json'', astTreeView_data := [parameters_item]\<rparr>"
  have a: "parse_input (astInput_value ?v) = Inl SyntaxError"
    by (simp add: parse_input_def)
  show ?thesis
    using a input_not_json_gives_empty_tree
        [where JSON_parse = parse_input and v = ?v and depth = 3
           and JSON_stringify = stringify_digits, OF a]
    by (simp add: view0_def)
qed

subsection \<open>The selection and action listeners\<close>

lemma node_of_view_unresolvable:
  assumes "\<not> resolvable v nodeId"
  shows "node_of_view v (Some nodeId) = Throws TypeError \<or>
         node_of_view v (Some nodeId) = Returns None"
proof (cases "this_ast v")
  case None
  then show ?thesis by (simp add: node_of_view_def)
next
  case (Some a)
  with assms have "\<not> in_bounds a nodeId" by (simp add: resolvable_def)
  from node_not_in_bounds [OF this] Some show ?thesis by (simp add: node_of_view_def)
qed

lemma node_of_view_console_log [simp]:
  "node_of_view (console_log args v) nodeId = node_of_view v nodeId"
  by (simp add: node_of_view_def console_log_def)

text \<open>
  What the selection listener catches: a value that \<^verbatim>\<open>JSON.parse\<close> rejects (the value
  \<^verbatim>\<open>n\<close> of the \<^verbatim>\<open>parameters\<close> entry is one) and a value that parses to \<^verbatim>\<open>null\<close>. It logs
  and returns.
\<close>

lemma vsc_select_unparsable:
  assumes "JSON_parse detail_value = Inl e \<or> JSON_parse detail_value = Inr None"
  shows "vsc_select JSON_parse v detail_value =
           (Returns (), console_log [Text ''error parsing nodeId '', Text detail_value] v)"
  using assms by (auto simp: vsc_select_def)

text \<open>
  C5, as the specification states it, says that a listener given a \<open>NodeID\<close> that does
  not resolve in the current snapshot ends without throwing. With \<open>sample_ast\<close> as the
  snapshot, the selection of an entry whose value is \<^verbatim>\<open>{"base":0,"offset":9}\<close>, an offset
  past the end of group 0, throws a \<open>TypeError\<close> out of the listener: \<open>node\<close> returns
  \<^verbatim>\<open>undefined\<close>, and \<^verbatim>\<open>'TranslationUnit' in undefined\<close> throws.
\<close>

theorem stale_selection_throws:
  "\<not> resolvable sample_view \<lparr>base = 0, offset = 9\<rparr> \<and>
   vsc_select parse_value sample_view ''{\"base\":0,\"offset\":9}'' = (Throws TypeError, sample_view)"
  by (simp add: resolvable_def sample_view_def view0_def sample_ast_def in_bounds_def
      vsc_select_def parse_value_def node_of_view_def node_def element_def isTranslationUnit_def)

text \<open>
  C5, amended: for every selection or action event whose \<open>NodeID\<close> is not resolvable in
  the current snapshot (there is no snapshot, or the group or the offset is out of
  bounds in it), the listener posts no message, and logs nothing but, for the highlight
  action, the name of the action; but it does not end silently: it throws a \<open>TypeError\<close>.
\<close>

theorem unresolvable_id_throws:
  assumes "\<not> resolvable v nodeId"
    and "JSON_parse detail_value = Inr (Some nodeId)"
    and "JSON_parse (item_value item) = Inr (Some nodeId)"
  shows "vsc_select JSON_parse v detail_value = (Throws TypeError, v) \<and>
         vsc_run_action JSON_parse v ''openSourceFile'' item = (Throws TypeError, v) \<and>
         vsc_run_action JSON_parse v ''highlightFullDeclaration'' item =
           (Throws TypeError, console_log [Text ''highlightFullDeclaration''] v)"
proof -
  from node_of_view_unresolvable [OF assms(1)]
  consider (throws) "node_of_view v (Some nodeId) = Throws TypeError"
    | (undefined) "node_of_view v (Some nodeId) = Returns None"
    by blast
  then show ?thesis
  proof cases
    case throws
    with assms(2,3) show ?thesis
      by (simp add: vsc_select_def vsc_run_action_def)
  next
    case undefined
    with assms(2,3) show ?thesis
      by (simp add: vsc_select_def vsc_run_action_def isTranslationUnit_def siteOf_simps)
  qed
qed

theorem unresolvable_id_throws_witness:
  "\<not> resolvable sample_view \<lparr>base = 0, offset = 9\<rparr> \<and>
   posted (snd (vsc_select parse_value sample_view ''{\"base\":0,\"offset\":9}'')) = [] \<and>
   fst (vsc_select parse_value sample_view ''{\"base\":0,\"offset\":9}'') = Throws TypeError \<and>
   vsc_run_action parse_value sample_view ''highlightFullDeclaration''
     (TreeItem (uniformIcon ''symbol-function'') ''main'' None ''{\"base\":0,\"offset\":9}'' []
        None None) =
     (Throws TypeError, console_log [Text ''highlightFullDeclaration''] sample_view)"
proof -
  let ?item = "TreeItem (uniformIcon ''symbol-function'') ''main'' None
                 ''{\"base\":0,\"offset\":9}'' [] None None"
  have a: "\<not> resolvable sample_view \<lparr>base = 0, offset = 9\<rparr>"
    by (simp add: resolvable_def sample_view_def view0_def sample_ast_def in_bounds_def)
  have b: "parse_value ''{\"base\":0,\"offset\":9}'' = Inr (Some \<lparr>base = 0, offset = 9\<rparr>)"
    by (simp add: parse_value_def)
  have c: "parse_value (item_value ?item) = Inr (Some \<lparr>base = 0, offset = 9\<rparr>)"
    by (simp add: parse_value_def)
  have d: "posted sample_view = []"
    by (simp add: sample_view_def view0_def)
  show ?thesis
    using a d unresolvable_id_throws
        [where JSON_parse = parse_value and item = ?item
           and detail_value = "''{\"base\":0,\"offset\":9}''", OF a b c]
    by simp
qed

text \<open>
  C7: when the highlight action is invoked on an entry whose \<open>NodeID\<close> resolves to a
  node \<open>n\<close> of the current snapshot, \<open>siteOf n\<close> returns, and the listener returns after
  posting one \<open>HighlightFullDeclarationMessage\<close> that carries the range \<open>siteOf n\<close>
  returned when it returned one, and after posting nothing when it returned \<^verbatim>\<open>null\<close> or
  \<^verbatim>\<open>undefined\<close>. Apart from that the listener only logs the name of the action.
\<close>

theorem highlight_action_posts_iff_site:
  assumes "this_ast v = Some ast"
    and "JSON_parse (item_value item) = Inr (Some nodeId)"
    and "node ast nodeId = Returns (Some n)"
  shows "\<exists>found. siteOf (Some n) = Returns found \<and>
           vsc_run_action JSON_parse v ''highlightFullDeclaration'' item =
             (Returns (),
              (console_log [Text ''highlightFullDeclaration''] v)
                \<lparr>posted := posted v @
                   (case found of
                      Present r \<Rightarrow> [HighlightFullDeclarationMessage r]
                    | Null \<Rightarrow> []
                    | Undefined \<Rightarrow> [])\<rparr>)"
proof -
  have nv: "node_of_view v (Some nodeId) = Returns (Some n)"
    using assms(1,3) by (simp add: node_of_view_def)
  have log: "posted (console_log args v) = posted v" for args
    by (simp add: console_log_def)
  show ?thesis
    using assms(2) nv log
    by (cases n)
       (simp_all add: vsc_run_action_def siteOf_simps postMessage_def)
qed

theorem highlight_action_posts_iff_site_witness:
  "this_ast sample_view = Some sample_ast \<and>
   node sample_ast \<lparr>base = 1, offset = 0\<rparr> = Returns (Some (ParameterDecl parameter_b)) \<and>
   (\<exists>found. siteOf (Some (ParameterDecl parameter_b)) = Returns found \<and>
      vsc_run_action parse_value sample_view ''highlightFullDeclaration''
        (TreeItem (uniformIcon ''symbol-parameter'') ''a (label: <none>)'' None
           ''{\"base\":1,\"offset\":0}'' [] None None) =
        (Returns (),
         (console_log [Text ''highlightFullDeclaration''] sample_view)
           \<lparr>posted := posted sample_view @
              (case found of
                 Present r \<Rightarrow> [HighlightFullDeclarationMessage r]
               | Null \<Rightarrow> []
               | Undefined \<Rightarrow> [])\<rparr>))"
proof -
  let ?item = "TreeItem (uniformIcon ''symbol-parameter'') ''a (label: <none>)'' None
                 ''{\"base\":1,\"offset\":0}'' [] None None"
  have a: "this_ast sample_view = Some sample_ast"
    by (simp add: sample_view_def)
  have b: "parse_value (item_value ?item) = Inr (Some \<lparr>base = 1, offset = 0\<rparr>)"
    by (simp add: parse_value_def)
  have c: "node sample_ast \<lparr>base = 1, offset = 0\<rparr> = Returns (Some (ParameterDecl parameter_b))"
    by (simp add: sample_ast_def node_def element_def)
  show ?thesis
    using a c highlight_action_posts_iff_site
        [where JSON_parse = parse_value and item = ?item, OF a b c]
    by simp
qed

text \<open>
  Scenario C of the specification: the highlight action on the parameter declaration
  whose site is \<open>range_b\<close> posts \<open>HighlightFullDeclarationMessage range_b\<close>.
\<close>

lemma scenario_C:
  "vsc_run_action parse_value sample_view ''highlightFullDeclaration''
     (TreeItem (uniformIcon ''symbol-parameter'') ''a (label: <none>)'' None
        ''{\"base\":1,\"offset\":0}'' [] None None) =
   (Returns (),
    sample_view\<lparr>posted := [HighlightFullDeclarationMessage range_b],
                console := [[Text ''highlightFullDeclaration'']]\<rparr>)"
  by (simp add: vsc_run_action_def parse_value_def node_of_view_def sample_view_def view0_def
      sample_ast_def node_def element_def siteOf_simps parameter_b_def postMessage_def
      console_log_def)

text \<open>
  C8: a plain selection of an entry whose \<open>NodeID\<close> resolves to a node \<open>n\<close> of the
  current snapshot returns, and it posts one \<open>OpenFileMessage\<close> with the \<open>fileUrl\<close> of the
  site of \<open>n\<close> when \<open>n\<close> is a \<open>TranslationUnit\<close>, and nothing when \<open>n\<close> is of any other
  kind. Nothing else changes.
\<close>

theorem select_posts_iff_translation_unit:
  assumes "this_ast v = Some ast"
    and "JSON_parse detail_value = Inr (Some nodeId)"
    and "node ast nodeId = Returns (Some n)"
  shows "vsc_select JSON_parse v detail_value =
           (Returns (),
            v\<lparr>posted := posted v @
                (case n of
                   TranslationUnit unit \<Rightarrow> [OpenFileMessage (fileUrl (TranslationUnit.site unit))]
                 | _ \<Rightarrow> [])\<rparr>)"
proof -
  have nv: "node_of_view v (Some nodeId) = Returns (Some n)"
    using assms(1,3) by (simp add: node_of_view_def)
  show ?thesis
    using assms(2) nv
    by (cases n)
       (simp_all add: vsc_select_def isTranslationUnit_Some postMessage_def)
qed

theorem select_posts_iff_translation_unit_witness:
  "this_ast sample_view = Some sample_ast \<and>
   vsc_select parse_value sample_view ''{\"base\":0,\"offset\":1}'' =
     (Returns (), sample_view\<lparr>posted := [OpenFileMessage ''file:///a.src'']\<rparr>) \<and>
   vsc_select parse_value sample_view ''{\"base\":0,\"offset\":2}'' = (Returns (), sample_view)"
proof -
  have a: "this_ast sample_view = Some sample_ast"
    by (simp add: sample_view_def)
  have b1: "parse_value ''{\"base\":0,\"offset\":1}'' = Inr (Some \<lparr>base = 0, offset = 1\<rparr>)"
    and b2: "parse_value ''{\"base\":0,\"offset\":2}'' = Inr (Some \<lparr>base = 0, offset = 2\<rparr>)"
    by (simp_all add: parse_value_def)
  have c1: "node sample_ast \<lparr>base = 0, offset = 1\<rparr> =
      Returns (Some (TranslationUnit \<lparr>decls = [\<lparr>base = 0, offset = 2\<rparr>, \<lparr>base = 0, offset = 3\<rparr>,
                                               \<lparr>base = 0, offset = 4\<rparr>],
                                      TranslationUnit.site = range_a\<rparr>))"
    and c2: "node sample_ast \<lparr>base = 0, offset = 2\<rparr> = Returns (Some (FunctionDecl function_main))"
    by (simp_all add: sample_ast_def node_def element_def)
  have d: "posted sample_view = []"
    by (simp add: sample_view_def view0_def)
  show ?thesis
    using a d
      select_posts_iff_translation_unit
        [where JSON_parse = parse_value
           and detail_value = "''{\"base\":0,\"offset\":1}''", OF a b1 c1]
      select_posts_iff_translation_unit
        [where JSON_parse = parse_value
           and detail_value = "''{\"base\":0,\"offset\":2}''", OF a b2 c2]
    by (simp add: range_a_def)
qed

subsection \<open>The host side\<close>

lemma ulp_small: "a < 2 ^ 53 \<Longrightarrow> ulp a = 1"
  by (subst ulp.simps) simp

text \<open>Below \<open>2 ^ 53\<close> every whole number is a double, and the subtraction is exact.\<close>

lemma double_of_exact:
  assumes "\<bar>n\<bar> < 2 ^ 53"
  shows "double_of n = n"
proof -
  have "nat \<bar>n\<bar> < 2 ^ 53"
    using assms by (simp add: nat_less_iff)
  then have "ulp (nat \<bar>n\<bar>) = 1" by (rule ulp_small)
  then show ?thesis
    by (simp add: double_of_def Let_def mult_sgn_abs)
qed

lemma number_minus_one_exact:
  assumes "1 \<le> n" and "n < 2 ^ 53"
  shows "number_minus n 1 = n - 1"
  unfolding number_minus_def using assms by (intro double_of_exact) simp

text \<open>
  From \<open>2 ^ 53\<close> on it is not: \<open>2 ^ 53 + 2\<close> is a double, and one less is half way
  between two doubles and rounds to \<open>2 ^ 53\<close>.
\<close>

lemma number_minus_rounds:
  "number_minus 9007199254740994 1 = 9007199254740992"
proof -
  have "ulp 9007199254740993 = 2 * ulp 4503599627370496"
    by (subst ulp.simps) simp
  also have "ulp 4503599627370496 = 1"
    by (rule ulp_small) simp
  finally have "ulp 9007199254740993 = 2" by simp
  then show ?thesis
    by (simp add: number_minus_def double_of_def Let_def)
qed

text \<open>
  Each position of a range is one-based when it is a whole number from 1 on, below
  \<open>2 ^ 53\<close>; the start of a range is not after its end when it is on an earlier line,
  or on the same line at no later column.
\<close>

lemma new_Range_ordered:
  assumes "0 \<le> sl" "0 \<le> sc" "0 \<le> el" "0 \<le> ec"
    and "sl < el \<or> (sl = el \<and> sc \<le> ec)"
  shows "new_Range sl sc el ec =
           Returns \<lparr>range_start = \<lparr>position_line = sl, position_character = sc\<rparr>,
                    range_end = \<lparr>position_line = el, position_character = ec\<rparr>\<rparr>"
  using assms by (auto simp: new_Range_def new_Position_def isBefore_def)

lemma toVscodeRange_one_based:
  assumes "one_based_positions r" and "start_not_after_end r"
  shows "toVscodeRange r =
           Returns \<lparr>range_start = \<lparr>position_line = line (start r) - 1,
                                    position_character = column (start r) - 1\<rparr>,
                    range_end = \<lparr>position_line = line (end r) - 1,
                                  position_character = column (end r) - 1\<rparr>\<rparr>"
proof -
  from assms(1) have
    "number_minus (line (start r)) 1 = line (start r) - 1"
    "number_minus (column (start r)) 1 = column (start r) - 1"
    "number_minus (line (end r)) 1 = line (end r) - 1"
    "number_minus (column (end r)) 1 = column (end r) - 1"
    by (simp_all add: one_based_positions_def number_minus_one_exact)
  moreover from assms have
    "0 \<le> line (start r) - 1" "0 \<le> column (start r) - 1"
    "0 \<le> line (end r) - 1" "0 \<le> column (end r) - 1"
    "line (start r) - 1 < line (end r) - 1 \<or>
     (line (start r) - 1 = line (end r) - 1 \<and> column (start r) - 1 \<le> column (end r) - 1)"
    by (auto simp: one_based_positions_def start_not_after_end_def)
  ultimately show ?thesis
    by (simp only: toVscodeRange_def new_Range_ordered)
qed

text \<open>
  C9: for every \<open>HighlightFullDeclarationMessage\<close> the host receives whose range has
  one-based positions and a start that is not after its end, \<open>toVscodeRange\<close> returns
  the range whose start and end are the start and the end of the wire range with one
  subtracted from each line and each column, and that range is the selection given to
  \<^verbatim>\<open>showTextDocument\<close>, in the one call the handler makes when \<^verbatim>\<open>vscode.Uri.parse\<close> returns
  the resource (when it throws there is no call). For the range of scenario C (line 8,
  columns 8 to 18) the selection is line 7, columns 7 to 17.
\<close>

theorem highlight_selects_zero_based_span:
  assumes "one_based_positions r" and "start_not_after_end r"
  shows "toVscodeRange r =
           Returns \<lparr>range_start = \<lparr>position_line = line (start r) - 1,
                                    position_character = column (start r) - 1\<rparr>,
                    range_end = \<lparr>position_line = line (end r) - 1,
                                  position_character = column (end r) - 1\<rparr>\<rparr> \<and>
         onDidReceiveMessage Uri_parse (HighlightFullDeclarationMessage r) h =
           (case Uri_parse (fileUrl r) of
              Inl e \<Rightarrow>
                (Throws e,
                 h\<lparr>host_console :=
                     host_console h @ [[Text ''highlightFullDeclaration'', Range r]]\<rparr>)
            | Inr uri \<Rightarrow>
                (Returns (),
                 h\<lparr>host_console :=
                     host_console h @ [[Text ''highlightFullDeclaration'', Range r]],
                   showTextDocument :=
                     showTextDocument h @
                       [(uri,
                         \<lparr>preserveFocus = None,
                          selection =
                            Some \<lparr>range_start = \<lparr>position_line = line (start r) - 1,
                                                 position_character = column (start r) - 1\<rparr>,
                                  range_end = \<lparr>position_line = line (end r) - 1,
                                               position_character = column (end r) - 1\<rparr>\<rparr>\<rparr>)]\<rparr>))"
  using toVscodeRange_one_based [OF assms]
  by (simp add: Let_def split: sum.split)

theorem highlight_selects_zero_based_span_witness:
  "one_based_positions range_b \<and> start_not_after_end range_b \<and>
   toVscodeRange range_b =
     Returns \<lparr>range_start = \<lparr>position_line = 7, position_character = 7\<rparr>,
              range_end = \<lparr>position_line = 7, position_character = 17\<rparr>\<rparr> \<and>
   onDidReceiveMessage Inr (HighlightFullDeclarationMessage range_b)
       \<lparr>host_console = [], showTextDocument = []\<rparr> =
     (Returns (),
      \<lparr>host_console = [[Text ''highlightFullDeclaration'', Range range_b]],
       showTextDocument =
         [(''file:///b.src'',
           \<lparr>preserveFocus = None,
            selection = Some \<lparr>range_start = \<lparr>position_line = 7, position_character = 7\<rparr>,
                              range_end = \<lparr>position_line = 7, position_character = 17\<rparr>\<rparr>\<rparr>)]\<rparr>)"
proof -
  have a: "one_based_positions range_b"
    by (simp add: one_based_positions_def range_b_def)
  have b: "start_not_after_end range_b"
    by (simp add: start_not_after_end_def range_b_def)
  have c: "line (start range_b) = 8" "column (start range_b) = 8"
    "line (end range_b) = 8" "column (end range_b) = 18" "fileUrl range_b = ''file:///b.src''"
    by (simp_all add: range_b_def)
  show ?thesis
    using a b
      highlight_selects_zero_based_span
        [where Uri_parse = Inr and r = range_b
           and h = "\<lparr>host_console = [], showTextDocument = []\<rparr>", OF a b]
    by (simp add: c)
qed

text \<open>
  Outside these ranges the editor's constructor decides. A position below 1 gives it a
  negative number: it throws, and the handler throws without a call of
  \<^verbatim>\<open>showTextDocument\<close>. A start after the end gives it two positions that it exchanges.
\<close>

lemma toVscodeRange_line_zero:
  "toVscodeRange (range_b\<lparr>start := \<lparr>line = 0, column = 8\<rparr>\<rparr>) =
     Throws (Error ''Illegal argument: line must be non-negative'') \<and>
   onDidReceiveMessage Inr
       (HighlightFullDeclarationMessage (range_b\<lparr>start := \<lparr>line = 0, column = 8\<rparr>\<rparr>))
       \<lparr>host_console = [], showTextDocument = []\<rparr> =
     (Throws (Error ''Illegal argument: line must be non-negative''),
      \<lparr>host_console =
         [[Text ''highlightFullDeclaration'', Range (range_b\<lparr>start := \<lparr>line = 0, column = 8\<rparr>\<rparr>)]],
       showTextDocument = []\<rparr>)"
proof -
  have "number_minus 0 1 = - 1" "number_minus 8 1 = 7" "number_minus 18 1 = 17"
    by (simp_all add: number_minus_def double_of_exact)
  then have "toVscodeRange (range_b\<lparr>start := \<lparr>line = 0, column = 8\<rparr>\<rparr>) =
     Throws (Error ''Illegal argument: line must be non-negative'')"
    by (simp add: toVscodeRange_def range_b_def new_Range_def new_Position_def
        illegalArgument_def)
  then show ?thesis by simp
qed

lemma toVscodeRange_start_after_end:
  "toVscodeRange \<lparr>start = \<lparr>line = 8, column = 18\<rparr>, end = \<lparr>line = 8, column = 8\<rparr>,
                   fileUrl = ''file:///b.src''\<rparr> =
     Returns \<lparr>range_start = \<lparr>position_line = 7, position_character = 7\<rparr>,
              range_end = \<lparr>position_line = 7, position_character = 17\<rparr>\<rparr>"
proof -
  have "number_minus 8 1 = 7" "number_minus 18 1 = 17"
    by (simp_all add: number_minus_def double_of_exact)
  then show ?thesis
    by (simp add: toVscodeRange_def new_Range_def new_Position_def isBefore_def)
qed

end
